theory Spec2Isabelle
  imports Complex_Main "HOL-Library.Sublist" "HOL-Library.AList"
begin

section \<open>Python exceptions\<close>

text \<open>
  The exception classes that the two modules can raise or let through. A raise is the
  \<open>Inl\<close> branch of a result \<open>error + 'a\<close>. \<open>RuntimeError\<close> also stands for its
  subclasses (the out-of-memory error of the tensor library is one), since
  \<open>except RuntimeError\<close> catches them alike; \<open>OtherError\<close> is any exception that is
  not a \<open>RuntimeError\<close>.
\<close>

datatype error =
    RuntimeError string
  | KeyError string
  | AttributeError string
  | FileNotFoundError string
  | ValueError string
  | TypeError string
  | IndexError
  | ZeroDivisionError
  | OtherError string

section \<open>The trainer: \<open>training_step\<close>\<close>

text \<open>
  \<open>str.casefold\<close> on ASCII text: the upper-case letters go to lower case, every other
  character stays.
\<close>

definition casefold_char :: "char \<Rightarrow> char" where
  "casefold_char c =
     (case map_of (zip ''ABCDEFGHIJKLMNOPQRSTUVWXYZ'' ''abcdefghijklmnopqrstuvwxyz'') c of
        Some d \<Rightarrow> d
      | None \<Rightarrow> c)"

definition casefold :: "string \<Rightarrow> string" where
  "casefold s = map casefold_char s"

text \<open>The test \<open>"out of memory" in str(e).casefold()\<close>.\<close>

definition is_oom :: "string \<Rightarrow> bool" where
  "is_oom msg = sublist ''out of memory'' (casefold msg)"

text \<open>
  The part of the trainer that \<open>training_step\<close> reads and writes: the counter
  \<open>_n_oom_errors_in_a_row\<close> and the warnings handed to the logger.
\<close>

record trainer =
  n_oom_errors_in_a_row :: int
  warnings :: "string list"

definition oom_warning :: string where
  "oom_warning = ''WARNING: ran out of memory (OOM), skipping batch. If this happens frequently, decrease the batch size. Will abort if we get 10 consecutive OOM errors.''"

text \<open>
  \<open>training_step\<close>. The second argument is what the \<open>try\<close> block
  (\<open>data_preproc\<close>, \<open>evaluate_model\<close>, \<open>get_batch_losses\<close>) did on the batch of this
  call: the exception it raised or the batch loss. The result is the trainer after the call
  and either the exception that leaves the call or the returned value (\<open>None\<close> for a
  skipped batch, \<open>Some loss\<close> otherwise).
\<close>

fun training_step :: "trainer \<Rightarrow> error + 'l \<Rightarrow> trainer \<times> (error + 'l option)" where
  "training_step st (Inl (RuntimeError msg)) =
     (if is_oom msg then
        (let st' = st\<lparr>n_oom_errors_in_a_row := n_oom_errors_in_a_row st + 1,
                      warnings := warnings st @ [oom_warning]\<rparr>
         in if n_oom_errors_in_a_row st' > 10 then (st', Inl (RuntimeError msg))
            else (st', Inr None))
      else (st, Inl (RuntimeError msg)))"
| "training_step st (Inl e) = (st, Inl e)"
| "training_step st (Inr batch_loss) =
     (st\<lparr>n_oom_errors_in_a_row := 0\<rparr>, Inr (Some batch_loss))"

text \<open>
  A sequence of calls, each on the trainer the previous call left, given what the
  \<open>try\<close> block did in each. The caller goes on after an exception, so that every call
  of the sequence has an outcome.
\<close>

fun training_steps ::
  "trainer \<Rightarrow> (error + 'l) list \<Rightarrow> (error + 'l option) list \<times> trainer" where
  "training_steps st [] = ([], st)"
| "training_steps st (b # bs) =
     (let (st', r) = training_step st b;
          (rs, st'') = training_steps st' bs
      in (r # rs, st''))"

section \<open>The trainer: \<open>get_batch_losses\<close>\<close>

text \<open>
  The value of a scalar loss tensor or of a Python float: a finite number, one of the two
  infinities, or not-a-number. The finite values are the real numbers: rounding, overflow
  to an infinity and the sign of zero are left out, the special values follow
  IEEE 754.
\<close>

datatype fl = Fin real | PInf | NInf | NaN

fun isnan :: "fl \<Rightarrow> bool" where
  "isnan NaN = True"
| "isnan _ = False"

fun isfinite :: "fl \<Rightarrow> bool" where
  "isfinite (Fin _) = True"
| "isfinite _ = False"

fun fl_add :: "fl \<Rightarrow> fl \<Rightarrow> fl" where
  "fl_add NaN _ = NaN"
| "fl_add _ NaN = NaN"
| "fl_add PInf NInf = NaN"
| "fl_add NInf PInf = NaN"
| "fl_add PInf _ = PInf"
| "fl_add _ PInf = PInf"
| "fl_add NInf _ = NInf"
| "fl_add _ NInf = NInf"
| "fl_add (Fin a) (Fin b) = Fin (a + b)"

fun fl_neg :: "fl \<Rightarrow> fl" where
  "fl_neg (Fin a) = Fin (- a)"
| "fl_neg PInf = NInf"
| "fl_neg NInf = PInf"
| "fl_neg NaN = NaN"

text \<open>The product of an infinity with a finite number, by the sign of the number.\<close>

definition inf_times :: "fl \<Rightarrow> real \<Rightarrow> fl" where
  "inf_times i a = (if a = 0 then NaN else if 0 < a then i else fl_neg i)"

fun fl_mul :: "fl \<Rightarrow> fl \<Rightarrow> fl" where
  "fl_mul NaN _ = NaN"
| "fl_mul _ NaN = NaN"
| "fl_mul (Fin a) (Fin b) = Fin (a * b)"
| "fl_mul (Fin a) PInf = inf_times PInf a"
| "fl_mul (Fin a) NInf = inf_times NInf a"
| "fl_mul PInf (Fin b) = inf_times PInf b"
| "fl_mul NInf (Fin b) = inf_times NInf b"
| "fl_mul PInf PInf = PInf"
| "fl_mul NInf NInf = PInf"
| "fl_mul PInf NInf = NInf"
| "fl_mul NInf PInf = NInf"

text \<open>
  A Python \<open>dict\<close> with string keys, in insertion order: \<open>d[k] = v\<close> replaces the value
  of a key that is there and appends a new key (\<open>AList.update\<close>); \<open>d.update(other)\<close>
  stores the items of \<open>other\<close> one after the other.
\<close>

type_synonym 'v pydict = "(string \<times> 'v) list"

definition dict_update :: "'v pydict \<Rightarrow> 'v pydict \<Rightarrow> 'v pydict" where
  "dict_update d other = fold (\<lambda>(k, v). AList.update k v) other d"

text \<open>
  What a loss function returns and what a weight specification is: a single value, a list
  of values or a dictionary of values.
\<close>

datatype 'v returns = Scalar 'v | Seq "'v list" | Mapping "'v pydict"

text \<open>
  Modelled from the spec: \<open>unpack_loss_returns\<close> of \<open>gnn_tracking.metrics.losses\<close> is
  not among the sources. The spec says that a scalar, a list or a keyed mapping of
  sub-losses is unpacked into sub-losses by key and that weights are unpacked the same
  way; it gives no key names. Here a scalar keeps the name of the loss function, a list
  entry gets the name and its position, a mapping entry the name and its key. The
  functions below take the unpacking as a parameter \<open>unpack\<close>, and the theorems hold for
  every such function; this one instantiates them.
\<close>

fun digit_char :: "nat \<Rightarrow> char" where
  "digit_char n = (''0123456789'' ! (n mod 10))"

fun str_nat :: "nat \<Rightarrow> string" where
  "str_nat n = (if n < 10 then [digit_char n] else str_nat (n div 10) @ [digit_char n])"

declare str_nat.simps [simp del]

fun unpack_loss_returns :: "string \<Rightarrow> 'v returns \<Rightarrow> 'v pydict" where
  "unpack_loss_returns key (Scalar v) = [(key, v)]"
| "unpack_loss_returns key (Seq vs) =
     map (\<lambda>(i, v). (key @ ''_'' @ str_nat i, v)) (enumerate 0 vs)"
| "unpack_loss_returns key (Mapping kvs) =
     dict_update [] (map (\<lambda>(k, v). (key @ ''_'' @ k, v)) kvs)"

text \<open>
  The loop of \<open>get_batch_losses\<close> over \<open>self.loss_functions.items()\<close>: each entry is the
  name, the loss function (applied to the model output; it may raise) and its weights.
\<close>

type_synonym 'o loss_functions = "(string \<times> ('o \<Rightarrow> error + fl returns) \<times> fl returns) list"

fun collect_losses ::
  "(string \<Rightarrow> fl returns \<Rightarrow> fl pydict) \<Rightarrow> 'o loss_functions \<Rightarrow> 'o \<Rightarrow>
     fl pydict \<times> fl pydict \<Rightarrow> error + fl pydict \<times> fl pydict" where
  "collect_losses unpack [] model_output (losses, weights) = Inr (losses, weights)"
| "collect_losses unpack ((key, loss_func, these_weights) # rest) model_output (losses, weights) =
     (case loss_func model_output of
        Inl e \<Rightarrow> Inl e
      | Inr r \<Rightarrow>
          collect_losses unpack rest model_output
            (dict_update losses (unpack key r), dict_update weights (unpack key these_weights)))"

text \<open>
  \<open>weights[k]\<close> on the \<open>defaultdict(lambda: 1.0)\<close>: a missing key is given the value 1.0,
  which is also stored.
\<close>

definition defaultdict_get :: "fl pydict \<Rightarrow> string \<Rightarrow> fl \<times> fl pydict" where
  "defaultdict_get weights k =
     (case map_of weights k of
        Some w \<Rightarrow> (w, weights)
      | None \<Rightarrow> (Fin 1, weights @ [(k, Fin 1)]))"

text \<open>
  \<open>sum(weights[k] * losses[k] for k in losses)\<close>, from the items of \<open>losses\<close> still to
  come and the sum so far; \<open>sum\<close> starts at 0 and adds from the left.
\<close>

fun weighted_total :: "fl pydict \<Rightarrow> fl pydict \<Rightarrow> fl \<Rightarrow> fl \<times> fl pydict" where
  "weighted_total [] weights acc = (acc, weights)"
| "weighted_total ((k, v) # items) weights acc =
     (let (w, weights') = defaultdict_get weights k
      in weighted_total items weights' (fl_add acc (fl_mul w v)))"

definition nan_message :: string where
  "nan_message = ''NaN loss encountered in test step.''"

text \<open>
  \<open>get_batch_losses\<close>. With no sub-loss at all \<open>sum\<close> returns the integer 0, which
  \<open>torch.isnan\<close> refuses with a \<open>TypeError\<close>. The message of the \<open>RuntimeError\<close> goes on
  with a rendering of the two dictionaries, which is left out here.
\<close>

definition get_batch_losses ::
  "(string \<Rightarrow> fl returns \<Rightarrow> fl pydict) \<Rightarrow> 'o loss_functions \<Rightarrow> 'o \<Rightarrow>
     error + fl \<times> fl pydict \<times> fl pydict" where
  "get_batch_losses unpack loss_functions model_output =
     (case collect_losses unpack loss_functions model_output ([], []) of
        Inl e \<Rightarrow> Inl e
      | Inr (losses, weights) \<Rightarrow>
          if losses = [] then Inl (TypeError ''isnan(): argument must be Tensor, not int'')
          else
            (let (total, weights') = weighted_total losses weights (Fin 0)
             in if isnan total then Inl (RuntimeError nan_message)
                else Inr (total, losses, weights')))"

text \<open>
  The words of the spec for the total: every sub-loss of \<open>losses\<close> times the weight of its
  key, where a key without a specified weight has weight 1.0, added up.
\<close>

definition weight_of :: "fl pydict \<Rightarrow> string \<Rightarrow> fl" where
  "weight_of specified k = (case map_of specified k of Some w \<Rightarrow> w | None \<Rightarrow> Fin 1)"

definition weighted_sum :: "fl pydict \<Rightarrow> fl pydict \<Rightarrow> fl" where
  "weighted_sum specified losses =
     foldl fl_add (Fin 0) (map (\<lambda>(k, v). fl_mul (weight_of specified k) v) losses)"

text \<open>
  All sub-losses that the loss functions return on a model output, unpacked, in the order
  of the loss functions, and all weights that the configuration specifies.
\<close>

definition unpacked_sub_losses ::
  "(string \<Rightarrow> fl returns \<Rightarrow> fl pydict) \<Rightarrow> 'o loss_functions \<Rightarrow> 'o \<Rightarrow> fl pydict" where
  "unpacked_sub_losses unpack loss_functions model_output =
     concat (map (\<lambda>(key, loss_func, these_weights).
                    case loss_func model_output of Inl e \<Rightarrow> [] | Inr r \<Rightarrow> unpack key r)
                 loss_functions)"

definition specified_weights ::
  "(string \<Rightarrow> fl returns \<Rightarrow> fl pydict) \<Rightarrow> 'o loss_functions \<Rightarrow> fl pydict" where
  "specified_weights unpack loss_functions =
     dict_update [] (concat (map (\<lambda>(key, loss_func, these_weights). unpack key these_weights)
                                 loss_functions))"

section \<open>The trainer: edge classification metrics\<close>

text \<open>Sequencing of calls that may raise: the first exception ends the computation.\<close>

definition bind :: "error + 'a \<Rightarrow> ('a \<Rightarrow> error + 'b) \<Rightarrow> error + 'b" where
  "bind m f = (case m of Inl e \<Rightarrow> Inl e | Inr x \<Rightarrow> f x)"

text \<open>\<open>d[k]\<close> on a dictionary: a missing key raises \<open>KeyError\<close>.\<close>

definition getitem :: "'v pydict \<Rightarrow> string \<Rightarrow> error + 'v" where
  "getitem d k = (case map_of d k of None \<Rightarrow> Inl (KeyError k) | Some v \<Rightarrow> Inr v)"

text \<open>
  The tensors of a model output: a vector of floats, a vector of integers, the two rows
  of an edge index (row 0 and row 1 hold the two end points of every edge) and a matrix
  of floats. The floats are real numbers here. The model output is a dictionary from
  keys to tensors, where \<open>None\<close> marks an output that the model did not give.
\<close>

datatype tensor =
    Floats "real list"
  | Longs "int list"
  | Edges "int list" "int list"
  | Rows "real list list"

type_synonym model_output = "tensor option pydict"

text \<open>
  \<open>pt[i]\<close> for one index of an index tensor: a negative index counts from the end, an
  index out of range raises \<open>IndexError\<close>.
\<close>

definition index_pt :: "real list \<Rightarrow> int \<Rightarrow> error + real" where
  "index_pt pt i =
     (let n = int (length pt); j = (if i < 0 then n + i else i)
      in if 0 \<le> j \<and> j < n then Inr (pt ! nat j) else Inl IndexError)"

fun gather :: "real list \<Rightarrow> int list \<Rightarrow> error + real list" where
  "gather pt [] = Inr []"
| "gather pt (i # idx) =
     bind (index_pt pt i) (\<lambda>x. case gather pt idx of Inl e \<Rightarrow> Inl e | Inr xs \<Rightarrow> Inr (x # xs))"

text \<open>
  \<open>_edge_pt_mask\<close>, on the two rows of the edge index and the vector of momenta:
  \<open>(pt_a > pt_min) | (pt_b > pt_min)\<close>.
\<close>

definition edge_pt_mask :: "int list \<times> int list \<Rightarrow> real list \<Rightarrow> real \<Rightarrow> error + bool list" where
  "edge_pt_mask edge_index pt pt_min =
     bind (gather pt (fst edge_index)) (\<lambda>pt_a.
     bind (gather pt (snd edge_index)) (\<lambda>pt_b.
     Inr (map2 (\<lambda>a b. a > pt_min \<or> b > pt_min) pt_a pt_b)))"

text \<open>
  \<open>t[mask]\<close> with a boolean mask: the entries at the positions where the mask is true;
  a mask of another length raises \<open>IndexError\<close>.
\<close>

definition mask_select :: "'a list \<Rightarrow> bool list \<Rightarrow> error + 'a list" where
  "mask_select xs msk =
     (if length xs \<noteq> length msk then Inl IndexError
      else Inr (map fst (filter snd (zip xs msk))))"

text \<open>\<open>.long()\<close>: a float goes to the integer towards zero.\<close>

definition long :: "real \<Rightarrow> int" where
  "long x = (if 0 \<le> x then \<lfloor>x\<rfloor> else \<lceil>x\<rceil>)"

text \<open>
  Reading the tensors that the metrics use out of the model output. The edge index is a
  two-row tensor of integers, the momenta, the edge weights and the edge labels are
  vectors; a \<open>None\<close> or a tensor of another kind is a \<open>TypeError\<close> here.
\<close>

fun as_edges :: "tensor option \<Rightarrow> error + int list \<times> int list" where
  "as_edges (Some (Edges r0 r1)) = Inr (r0, r1)"
| "as_edges _ = Inl (TypeError ''edge_index'')"

fun as_floats :: "tensor option \<Rightarrow> error + real list" where
  "as_floats (Some (Floats xs)) = Inr xs"
| "as_floats (Some (Longs xs)) = Inr (map of_int xs)"
| "as_floats _ = Inl (TypeError ''vector'')"

text \<open>
  The metric functions of \<open>gnn_tracking.metrics.binary_classification\<close> and
  \<open>denote_pt\<close> are not among the sources; they are parameters: the statistics at a
  threshold (\<open>BinaryClassificationStats(output, y, thld).get_all()\<close>), the maximised
  statistics, the area under the ROC curve (with an optional \<open>max_fpr\<close>) and the naming
  of a metric by the momentum threshold.
\<close>

record metric_fns =
  bcs_get_all :: "real list \<Rightarrow> int list \<Rightarrow> real \<Rightarrow> fl pydict"
  get_maximized_bcs :: "real list \<Rightarrow> int list \<Rightarrow> fl pydict"
  roc_auc_score :: "int list \<Rightarrow> real list \<Rightarrow> real option \<Rightarrow> fl"
  denote_pt :: "string \<Rightarrow> real \<Rightarrow> string"

text \<open>
  The metrics that \<open>evaluate_ec_metrics_with_pt_thld\<close> computes from the masked
  predictions and labels, before the keys are renamed.
\<close>

definition ec_metrics_of :: "metric_fns \<Rightarrow> real list \<Rightarrow> int list \<Rightarrow> real \<Rightarrow> fl pydict" where
  "ec_metrics_of fns predicted true ec_threshold =
     (let metrics = dict_update (bcs_get_all fns predicted true ec_threshold)
                                (get_maximized_bcs fns predicted true);
          metrics = AList.update ''roc_auc'' (roc_auc_score fns true predicted None) metrics
      in fold (\<lambda>(name, max_fpr).
                 AList.update name (roc_auc_score fns true predicted (Some max_fpr)))
           [(''roc_auc_0.001FPR'', 0.001), (''roc_auc_0.01FPR'', 0.01), (''roc_auc_0.1FPR'', 0.1)]
           metrics)"

definition evaluate_ec_metrics_with_pt_thld ::
  "metric_fns \<Rightarrow> model_output \<Rightarrow> real \<Rightarrow> real \<Rightarrow> error + fl pydict" where
  "evaluate_ec_metrics_with_pt_thld fns model_output pt_min ec_threshold =
     bind (getitem model_output ''edge_index'') (\<lambda>ei.
     bind (getitem model_output ''pt'') (\<lambda>pt.
     bind (as_edges ei) (\<lambda>edge_index.
     bind (as_floats pt) (\<lambda>pt.
     bind (edge_pt_mask edge_index pt pt_min) (\<lambda>edge_pt_mask.
     bind (getitem model_output ''w'') (\<lambda>w.
     bind (as_floats w) (\<lambda>w.
     bind (mask_select w edge_pt_mask) (\<lambda>predicted.
     bind (getitem model_output ''y'') (\<lambda>y.
     bind (as_floats y) (\<lambda>y.
     bind (mask_select y edge_pt_mask) (\<lambda>y_masked.
     Inr (dict_update []
            (map (\<lambda>(k, v). (denote_pt fns k pt_min, v))
               (ec_metrics_of fns predicted (map long y_masked) ec_threshold))))))))))))))"

text \<open>
  \<open>evaluate_ec_metrics\<close>: nothing when the model gave no edge weights, else the metrics
  of every momentum threshold of \<open>ec_eval_pt_thlds\<close> in one dictionary.
\<close>

fun ec_metrics_loop ::
  "metric_fns \<Rightarrow> model_output \<Rightarrow> real \<Rightarrow> real list \<Rightarrow> fl pydict \<Rightarrow> error + fl pydict" where
  "ec_metrics_loop fns model_output ec_threshold [] ret = Inr ret"
| "ec_metrics_loop fns model_output ec_threshold (pt_min # thlds) ret =
     (case evaluate_ec_metrics_with_pt_thld fns model_output pt_min ec_threshold of
        Inl e \<Rightarrow> Inl e
      | Inr m \<Rightarrow> ec_metrics_loop fns model_output ec_threshold thlds (dict_update ret m))"

definition evaluate_ec_metrics ::
  "metric_fns \<Rightarrow> real list \<Rightarrow> real \<Rightarrow> model_output \<Rightarrow> real option \<Rightarrow> error + fl pydict" where
  "evaluate_ec_metrics fns ec_eval_pt_thlds self_ec_threshold model_output ec_threshold =
     (let ec_threshold = (case ec_threshold of None \<Rightarrow> self_ec_threshold | Some t \<Rightarrow> t)
      in bind (getitem model_output ''w'') (\<lambda>w.
           if w = None then Inr []
           else ec_metrics_loop fns model_output ec_threshold ec_eval_pt_thlds []))"

section \<open>The trainer: clustering metrics\<close>

text \<open>
  What a clustering function returns when it does not skip: its metrics and the best
  parameters it found. The function is called with the accumulated arrays by key, the
  epoch and the start parameters, and returns a result or \<open>None\<close>.
\<close>

record cluster_result =
  metrics :: "fl pydict"
  best_params :: "fl pydict"

type_synonym cluster_fct =
  "tensor list pydict \<Rightarrow> int \<Rightarrow> fl pydict option \<Rightarrow> cluster_result option"

text \<open>\<open>self._best_cluster_params.get(fct_name)\<close>: \<open>None\<close> for a missing key.\<close>

definition dict_get :: "'v option pydict \<Rightarrow> string \<Rightarrow> 'v option" where
  "dict_get d k = (case map_of d k of None \<Rightarrow> None | Some v \<Rightarrow> v)"

text \<open>
  The loop of \<open>_evaluate_cluster_metrics\<close> over \<open>self.clustering_functions.items()\<close>,
  with the metrics so far and the cache \<open>_best_cluster_params\<close>.
\<close>

fun cluster_metrics_loop ::
  "(string \<times> cluster_fct) list \<Rightarrow> tensor list pydict \<Rightarrow> int \<Rightarrow>
     fl pydict \<times> fl pydict option pydict \<Rightarrow> fl pydict \<times> fl pydict option pydict" where
  "cluster_metrics_loop [] cluster_eval_input epoch (ms, cache) = (ms, cache)"
| "cluster_metrics_loop ((fct_name, fct) # rest) cluster_eval_input epoch (ms, cache) =
     (case fct cluster_eval_input epoch (dict_get cache fct_name) of
        None \<Rightarrow> cluster_metrics_loop rest cluster_eval_input epoch (ms, cache)
      | Some cluster_result \<Rightarrow>
          cluster_metrics_loop rest cluster_eval_input epoch
            (dict_update (dict_update ms (metrics cluster_result))
               (dict_update []
                  (map (\<lambda>(param, val). (''best_'' @ fct_name @ ''_'' @ param, val))
                     (best_params cluster_result))),
             AList.update fct_name (Some (best_params cluster_result)) cache))"

text \<open>
  \<open>_evaluate_cluster_metrics\<close>: the metrics and the cache after the call. The arrays
  are passed as keyword arguments next to \<open>epoch\<close> and \<open>start_params\<close>, so an
  accumulated key of one of these two names makes the first call a \<open>TypeError\<close>.
\<close>

definition evaluate_cluster_metrics ::
  "(string \<times> cluster_fct) list \<Rightarrow> int \<Rightarrow> fl pydict option pydict \<Rightarrow> tensor list pydict \<Rightarrow>
     error + fl pydict \<times> fl pydict option pydict" where
  "evaluate_cluster_metrics clustering_functions epoch cache cluster_eval_input =
     (if clustering_functions \<noteq> [] \<and>
         (''epoch'' \<in> fst ` set cluster_eval_input \<or>
          ''start_params'' \<in> fst ` set cluster_eval_input)
      then Inl (TypeError ''got multiple values for keyword argument'')
      else Inr (cluster_metrics_loop clustering_functions cluster_eval_input epoch ([], cache)))"

section \<open>The trainer: the loop of \<open>test_step\<close>\<close>

text \<open>
  What \<open>test_step\<close> reads of the trainer. \<open>evaluate_model\<close> calls the network, which is
  not among the sources: it is a function from a batch and the flag \<open>mask_pids_reco\<close> to
  a model output, and may raise. \<open>required_model_outputs\<close> is the table
  \<open>ClusterFctType.required_model_outputs\<close> (model output key to clustering input key),
  which is not among the sources either.
\<close>

record 'b tester =
  evaluate_model :: "'b \<Rightarrow> bool \<Rightarrow> error + model_output"
  unpack_returns :: "string \<Rightarrow> fl returns \<Rightarrow> fl pydict"
  loss_functions :: "model_output loss_functions"
  metric_functions :: metric_fns
  ec_eval_pt_thlds :: "real list"
  ec_threshold :: real
  clustering_functions :: "(string \<times> cluster_fct) list"
  max_batches_for_clustering :: int
  required_model_outputs :: "(string \<times> string) list"

text \<open>\<open>d[k].append(v)\<close> on a \<open>defaultdict(list)\<close>.\<close>

definition list_append :: "'v list pydict \<Rightarrow> string \<Rightarrow> 'v \<Rightarrow> 'v list pydict" where
  "list_append d k v =
     (case map_of d k of
        None \<Rightarrow> d @ [(k, [v])]
      | Some vs \<Rightarrow> AList.update k (vs @ [v]) d)"

text \<open>
  The inner loop over \<open>required_model_outputs.items()\<close>: the tensor of every required
  key is appended to the list of its clustering input key; \<open>.detach()\<close> on a \<open>None\<close>
  is an \<open>AttributeError\<close>.
\<close>

fun accumulate ::
  "(string \<times> string) list \<Rightarrow> model_output \<Rightarrow> tensor list pydict \<Rightarrow> error + tensor list pydict" where
  "accumulate [] model_output cluster_eval_input = Inr cluster_eval_input"
| "accumulate ((mo_key, cf_key) # rest) model_output cluster_eval_input =
     (case getitem model_output mo_key of
        Inl e \<Rightarrow> Inl e
      | Inr None \<Rightarrow> Inl (AttributeError ''detach'')
      | Inr (Some t) \<Rightarrow> accumulate rest model_output (list_append cluster_eval_input cf_key t))"

text \<open>
  The body of the loop of \<open>test_step\<close> for the batch of index \<open>batch_idx\<close>, after the
  test for \<open>max_batches\<close>: the losses and the edge classification metrics of the batch go
  to \<open>batch_metrics\<close>, and the arrays for clustering to \<open>cluster_eval_input\<close>.
\<close>

definition test_batch ::
  "'b tester \<Rightarrow> nat \<Rightarrow> 'b \<Rightarrow> fl list pydict \<times> tensor list pydict \<Rightarrow>
     error + fl list pydict \<times> tensor list pydict" where
  "test_batch self batch_idx data acc =
     (case acc of (batch_metrics, cluster_eval_input) \<Rightarrow>
     bind (evaluate_model self data False) (\<lambda>model_output.
     bind (get_batch_losses (unpack_returns self) (loss_functions self) model_output)
       (\<lambda>(batch_loss, these_batch_losses, loss_weights).
     let batch_metrics = list_append batch_metrics ''total'' batch_loss;
         batch_metrics =
           fold (\<lambda>(key, value) bm.
                   list_append (list_append bm key value) (key @ ''_weighted'')
                     (fl_mul value (weight_of loss_weights key)))
             these_batch_losses batch_metrics
     in
     bind (evaluate_ec_metrics (metric_functions self) (ec_eval_pt_thlds self) (ec_threshold self)
             model_output None) (\<lambda>ec.
     let batch_metrics = fold (\<lambda>(key, value) bm. list_append bm key value) ec batch_metrics
     in
     bind (if clustering_functions self \<noteq> [] \<and> int batch_idx \<le> max_batches_for_clustering self
           then accumulate (required_model_outputs self) model_output cluster_eval_input
           else Inr cluster_eval_input) (\<lambda>cluster_eval_input.
     Inr (batch_metrics, cluster_eval_input))))))"

text \<open>
  The loop \<open>for _batch_idx, data in enumerate(loader)\<close> of \<open>test_step\<close>, from the
  index of the next batch: \<open>if max_batches and _batch_idx > max_batches: break\<close>, then the
  body. The merge of the collected metrics that follows the loop (means and standard
  deviations) is numeric post-processing and is not part of this development.
\<close>

fun test_step_loop ::
  "'b tester \<Rightarrow> int option \<Rightarrow> nat \<Rightarrow> 'b list \<Rightarrow> fl list pydict \<times> tensor list pydict \<Rightarrow>
     error + fl list pydict \<times> tensor list pydict" where
  "test_step_loop self max_batches batch_idx [] acc = Inr acc"
| "test_step_loop self max_batches batch_idx (data # loader) acc =
     (if (case max_batches of None \<Rightarrow> False | Some m \<Rightarrow> m \<noteq> 0 \<and> int batch_idx > m) then Inr acc
      else
        (case test_batch self batch_idx data acc of
           Inl e \<Rightarrow> Inl e
         | Inr acc' \<Rightarrow> test_step_loop self max_batches (Suc batch_idx) loader acc'))"

text \<open>The \<open>try\<close> block of \<open>training_step\<close> on a batch.\<close>

definition training_try_block :: "'b tester \<Rightarrow> 'b \<Rightarrow> error + fl" where
  "training_try_block self batch =
     bind (evaluate_model self batch True) (\<lambda>model_output.
     bind (get_batch_losses (unpack_returns self) (loss_functions self) model_output)
       (\<lambda>(batch_loss, these_batch_losses, loss_weights). Inr batch_loss))"

section \<open>The point cloud builder: hit tables\<close>

text \<open>
  A hit table (a data frame) is the list of its columns in order, each a name and the
  values of the rows; all columns of a table have the same length. The values are real
  numbers. \<open>hits[name]\<close> raises \<open>KeyError\<close> for a missing column and \<open>hits.name\<close>
  raises \<open>AttributeError\<close>; \<open>hits[name] = values\<close> replaces the column of that name
  or appends a new one; \<open>hits[mask]\<close> keeps the rows where the mask is true;
  \<open>len(hits)\<close> is the number of rows.
\<close>

type_synonym frame = "(string \<times> real list) list"

definition column :: "frame \<Rightarrow> string \<Rightarrow> error + real list" where
  "column hits name = (case map_of hits name of None \<Rightarrow> Inl (KeyError name) | Some vs \<Rightarrow> Inr vs)"

definition attribute :: "frame \<Rightarrow> string \<Rightarrow> error + real list" where
  "attribute hits name =
     (case map_of hits name of None \<Rightarrow> Inl (AttributeError name) | Some vs \<Rightarrow> Inr vs)"

definition set_column :: "frame \<Rightarrow> string \<Rightarrow> real list \<Rightarrow> frame" where
  "set_column hits name vs = AList.update name vs hits"

definition select_rows :: "frame \<Rightarrow> bool list \<Rightarrow> frame" where
  "select_rows hits msk = map (\<lambda>(name, vs). (name, map fst (filter snd (zip vs msk)))) hits"

definition n_rows :: "frame \<Rightarrow> nat" where
  "n_rows hits = (case hits of [] \<Rightarrow> 0 | (name, vs) # cols \<Rightarrow> length vs)"

section \<open>The point cloud builder: \<open>sector_hits\<close>\<close>

text \<open>The attributes of the builder that \<open>sector_hits\<close> and \<open>process\<close> read.\<close>

record builder =
  n_sectors :: int
  redo :: bool
  sector_di :: real
  sector_ds :: real
  measurement_mode :: bool
  thld :: real

text \<open>
  What \<open>sector_hits\<close> returns: the bare table when there is one sector, and a pair of
  the extended sector and the measurements otherwise.
\<close>

datatype sector_return = Bare frame | Pair frame "real pydict"

text \<open>
  The tests on the rotated coordinates of one hit, as \<open>sector_hits\<close> writes them:
  the extended sector and the strict sector for a given slope.
\<close>

definition in_extended_sector :: "real \<Rightarrow> real \<Rightarrow> real \<Rightarrow> real \<Rightarrow> real \<Rightarrow> bool" where
  "in_extended_sector ds di slope ur vr =
     (vr > - ds * slope * ur - di \<and> vr < ds * slope * ur + di \<and> ur > 0)"

definition in_sector :: "real \<Rightarrow> real \<Rightarrow> real \<Rightarrow> bool" where
  "in_sector slope ur vr = (vr > - slope * ur \<and> vr < slope * ur \<and> ur \<ge> 0)"

text \<open>
  \<open>sector_hits\<close>. The first component of the result is the table \<open>hits\<close> of the caller
  after the call: the function assigns the columns \<open>ur\<close> and \<open>vr\<close> on the table it is
  given. The second component is the exception or the returned value. The angle is
  \<open>s*2*np.pi/self.n_sectors\<close> (a division by zero raises) and the slope is
  \<open>np.arctan(theta)\<close>.
\<close>

definition sector_hits :: "builder \<Rightarrow> frame \<Rightarrow> int \<Rightarrow> frame \<times> (error + sector_return)" where
  "sector_hits self hits s =
     (if n_sectors self = 1 then (hits, Inr (Bare hits))
      else if n_sectors self = 0 then (hits, Inl ZeroDivisionError)
      else
        (let theta = of_int s * 2 * pi / of_int (n_sectors self);
             slope = arctan theta
         in case column hits ''u'' of Inl e \<Rightarrow> (hits, Inl e) | Inr u \<Rightarrow>
            case column hits ''v'' of Inl e \<Rightarrow> (hits, Inl e) | Inr v \<Rightarrow>
            (let ur = map2 (\<lambda>u v. u * cos theta - v * sin theta) u v;
                 hits = set_column hits ''ur'' ur;
                 vr = map2 (\<lambda>u v. u * sin theta + v * cos theta) u v;
                 hits = set_column hits ''vr'' vr;
                 extended_sector =
                   select_rows hits
                     (map2 (in_extended_sector (sector_ds self) (sector_di self) slope) ur vr)
             in if measurement_mode self then
                  (let sector = select_rows hits (map2 (in_sector slope) ur vr)
                   in case attribute sector ''pt'' of Inl e \<Rightarrow> (hits, Inl e) | Inr pt \<Rightarrow>
                      if n_rows sector = 0 then (hits, Inl ZeroDivisionError)
                      else (hits, Inr (Pair extended_sector
                              [(''sector_size'', real (n_rows sector)),
                               (''extended_sector_size'', real (n_rows extended_sector)),
                               (''sector_size_ratio'',
                                  real (n_rows extended_sector) / real (n_rows sector))])))
                else (hits, Inr (Pair extended_sector [])))))"

text \<open>
  The words of the spec for the two sectors: the slope is the tangent of the angle, the
  extended sector is \<open>|vr| < sector_ds * slope * ur + sector_di\<close> with \<open>ur > 0\<close>, the
  strict one \<open>|vr| < slope * ur\<close> with \<open>ur \<ge> 0\<close>.
\<close>

definition spec_slope :: "int \<Rightarrow> int \<Rightarrow> real" where
  "spec_slope s n = tan (of_int s * 2 * pi / of_int n)"

definition spec_in_extended_sector :: "real \<Rightarrow> real \<Rightarrow> real \<Rightarrow> real \<Rightarrow> real \<Rightarrow> bool" where
  "spec_in_extended_sector ds di slope ur vr = (\<bar>vr\<bar> < ds * slope * ur + di \<and> ur > 0)"

definition spec_in_sector :: "real \<Rightarrow> real \<Rightarrow> real \<Rightarrow> bool" where
  "spec_in_sector slope ur vr = (\<bar>vr\<bar> < slope * ur \<and> ur \<ge> 0)"

section \<open>The point cloud builder: file names and the constructor\<close>

text \<open>\<open>str\<close> of an integer, as the f-strings of the file names write it.\<close>

definition str_int :: "int \<Rightarrow> string" where
  "str_int i = (if i < 0 then ''-'' @ str_nat (nat (- i)) else str_nat (nat i))"

definition artifact_name :: "int \<Rightarrow> int \<Rightarrow> string" where
  "artifact_name evtid s = ''data'' @ str_int evtid @ ''_s'' @ str_int s @ ''.pt''"

text \<open>
  \<open>int\<close> of a string of ASCII characters: white space around the number (tab, line
  feed, vertical tab, form feed, carriage return and space) is dropped, a sign may come
  first, then digits, where single underscores may stand between digits; anything else is
  a \<open>ValueError\<close>.
\<close>

definition is_space :: "char \<Rightarrow> bool" where
  "is_space c = ((of_char c :: nat) \<in> {9, 10, 11, 12, 13, 32})"

definition is_digit :: "char \<Rightarrow> bool" where
  "is_digit c = (c \<in> set ''0123456789'')"

definition digit_value :: "char \<Rightarrow> nat" where
  "digit_value c = length (takeWhile (\<lambda>d. d \<noteq> c) ''0123456789'')"

fun digits_value :: "string \<Rightarrow> nat \<Rightarrow> nat option" where
  "digits_value [] acc = Some acc"
| "digits_value (c # cs) acc =
     (if is_digit c then digits_value cs (10 * acc + digit_value c)
      else if c = CHR ''_'' \<and> cs \<noteq> [] \<and> is_digit (hd cs) then digits_value cs acc
      else None)"

definition strip :: "string \<Rightarrow> string" where
  "strip s = rev (dropWhile is_space (rev (dropWhile is_space s)))"

definition unsigned_int :: "string \<Rightarrow> nat option" where
  "unsigned_int body =
     (case body of [] \<Rightarrow> None | d # ds \<Rightarrow> if is_digit d then digits_value body 0 else None)"

definition py_int :: "string \<Rightarrow> error + int" where
  "py_int s =
     (let t = strip s;
          (negative, body) =
            (case t of
               [] \<Rightarrow> (False, [])
             | c # cs \<Rightarrow>
                 if c = CHR ''-'' then (True, cs)
                 else if c = CHR ''+'' then (False, cs)
                 else (False, t))
      in case unsigned_int body of
           None \<Rightarrow> Inl (ValueError ''invalid literal for int()'')
         | Some n \<Rightarrow> Inr (if negative then - int n else int n))"

text \<open>\<open>s[-9:]\<close>, \<open>s.replace(old, "")\<close> for a non-empty \<open>old\<close>, and \<open>os.path.join\<close>.\<close>

definition last9 :: "string \<Rightarrow> string" where
  "last9 s = drop (length s - 9) s"

fun remove_all :: "string \<Rightarrow> string \<Rightarrow> string" where
  "remove_all old [] = []"
| "remove_all old (c # cs) =
     (if old \<noteq> [] \<and> prefix old (c # cs) then remove_all old (drop (length old - 1) cs)
      else c # remove_all old cs)"

definition path_join :: "string \<Rightarrow> string \<Rightarrow> string" where
  "path_join a b =
     (if b \<noteq> [] \<and> hd b = CHR ''/'' then b
      else if a = [] \<or> last a = CHR ''/'' then a @ b
      else a @ ''/'' @ b)"

definition hits_suffix :: string where
  "hits_suffix = ''-hits.csv.gz''"

text \<open>
  The loop of \<open>__init__\<close> over the listing of the input directory, with the listing
  \<open>outfiles\<close> of the output directory: the list \<open>prefixes\<close> and the dictionary
  \<open>exists\<close> from event id to flag.
\<close>

fun init_loop ::
  "string \<Rightarrow> string list \<Rightarrow> string list \<Rightarrow> string list \<times> (int \<times> bool) list \<Rightarrow>
     error + string list \<times> (int \<times> bool) list" where
  "init_loop indir outfiles [] (event_prefixes, exists) = Inr (event_prefixes, exists)"
| "init_loop indir outfiles (p # ps) (event_prefixes, exists) =
     (if suffix hits_suffix p then
        (let prefix_str = remove_all hits_suffix p
         in case py_int (last9 prefix_str) of
              Inl e \<Rightarrow> Inl e
            | Inr evtid \<Rightarrow>
                init_loop indir outfiles ps
                  (event_prefixes @ [path_join indir prefix_str],
                   AList.update evtid (artifact_name evtid 0 \<in> set outfiles) exists))
      else init_loop indir outfiles ps (event_prefixes, exists))"

definition builder_init ::
  "string \<Rightarrow> string list \<Rightarrow> string list \<Rightarrow> error + string list \<times> (int \<times> bool) list" where
  "builder_init indir outfiles infiles = init_loop indir outfiles infiles ([], [])"

section \<open>The point cloud builder: \<open>process\<close>\<close>

text \<open>
  The state that the loop over the sectors of one event changes: the hit table of the
  event, the files of the output directory by name, \<open>self.data_list\<close> and the counter
  \<open>n_sector_hits\<close>. The samples are of a type \<open>'d\<close>: \<open>to_pyg_data\<close>, which packs a
  sector into a sample, is a parameter of the loop and may raise.
\<close>

record 'd pstate =
  hits_table :: frame
  outdir_files :: "'d pydict"
  data_list :: "'d list"
  n_sector_hits :: nat

text \<open>
  \<open>sector, measurements = self.sector_hits(hits, s)\<close>: a pair is taken apart. A bare
  table is iterated over its column names: with another number of columns than two the
  unpacking raises \<open>ValueError\<close>; with two columns the names are bound, and
  \<open>to_pyg_data\<close> then indexes a string with the list of feature names, a \<open>TypeError\<close>.
\<close>

fun unpack_sector :: "sector_return \<Rightarrow> error + frame \<times> real pydict" where
  "unpack_sector (Pair sector measurements) = Inr (sector, measurements)"
| "unpack_sector (Bare hits) =
     (if length hits = 2 then Inl (TypeError ''string indices must be integers'')
      else Inl (ValueError ''wrong number of values to unpack''))"

text \<open>
  The body of \<open>for s in range(self.n_sectors)\<close> for one sector \<open>s\<close>, where
  \<open>exists_evt\<close> is \<open>self.exists[evtid]\<close>.
\<close>

definition process_sector ::
  "(frame \<Rightarrow> error + 'd) \<Rightarrow> builder \<Rightarrow> bool \<Rightarrow> int \<Rightarrow> int \<Rightarrow> 'd pstate \<Rightarrow> error + 'd pstate" where
  "process_sector to_pyg_data self exists_evt evtid s st =
     (let name = artifact_name evtid s
      in if exists_evt \<and> \<not> redo self then
           (case map_of (outdir_files st) name of
              None \<Rightarrow> Inl (FileNotFoundError name)
            | Some data \<Rightarrow> Inr (st\<lparr>data_list := data_list st @ [data]\<rparr>))
         else
           (case sector_hits self (hits_table st) s of
              (hits, Inl e) \<Rightarrow> Inl e
            | (hits, Inr r) \<Rightarrow>
                bind (unpack_sector r) (\<lambda>(sector, measurements).
                bind (to_pyg_data sector) (\<lambda>data.
                Inr (st\<lparr>hits_table := hits,
                        outdir_files := AList.update name data (outdir_files st),
                        data_list := data_list st @ [data],
                        n_sector_hits := n_sector_hits st + n_rows sector\<rparr>)))))"

fun process_sectors ::
  "(frame \<Rightarrow> error + 'd) \<Rightarrow> builder \<Rightarrow> bool \<Rightarrow> int \<Rightarrow> int list \<Rightarrow> 'd pstate \<Rightarrow> error + 'd pstate" where
  "process_sectors to_pyg_data self exists_evt evtid [] st = Inr st"
| "process_sectors to_pyg_data self exists_evt evtid (s # sectors) st =
     (case process_sector to_pyg_data self exists_evt evtid s st of
        Inl e \<Rightarrow> Inl e
      | Inr st' \<Rightarrow> process_sectors to_pyg_data self exists_evt evtid sectors st')"

text \<open>\<open>range(self.n_sectors)\<close>.\<close>

definition sector_range :: "int \<Rightarrow> int list" where
  "sector_range n = map int [0..<nat n]"

text \<open>
  The body of the loop of \<open>process\<close> for one event, from the prefix \<open>f\<close> of its files.
  \<open>load_hits\<close> stands for \<open>load_event\<close>, the optional pixel restriction and
  \<open>append_features\<close>: it gives the augmented hit table of the event, or raises. The
  result is the event id, the files of the output directory and \<open>self.data_list\<close> after
  the event, and the number of sector hits that goes into the statistics.
\<close>

definition process_event ::
  "(string \<Rightarrow> error + frame) \<Rightarrow> (frame \<Rightarrow> error + 'd) \<Rightarrow> builder \<Rightarrow> (int \<times> bool) list \<Rightarrow>
     string \<Rightarrow> 'd pydict \<times> 'd list \<Rightarrow> error + int \<times> 'd pstate" where
  "process_event load_hits to_pyg_data self exists f acc =
     bind (py_int (last9 f)) (\<lambda>evtid.
     bind (load_hits f) (\<lambda>hits.
     bind (attribute hits ''particle_id'') (\<lambda>particle_id.
     case map_of exists evtid of
       None \<Rightarrow>
         if n_sectors self \<le> 0 then
           Inr (evtid, \<lparr>hits_table = hits, outdir_files = fst acc, data_list = snd acc,
                        n_sector_hits = 0\<rparr>)
         else Inl (KeyError (str_int evtid))
     | Some exists_evt \<Rightarrow>
         bind (process_sectors to_pyg_data self exists_evt evtid (sector_range (n_sectors self))
                 \<lparr>hits_table = hits, outdir_files = fst acc, data_list = snd acc,
                  n_sector_hits = 0\<rparr>)
           (\<lambda>st. Inr (evtid, st)))))"

section \<open>The words of the claims about the edge mask\<close>

text \<open>
  The momentum of the hit that an index of the edge index names (a negative index counts
  from the end), the indices that name a hit, and the edges of which at least one end
  point has a momentum above the threshold.
\<close>

definition endpoint_pt :: "real list \<Rightarrow> int \<Rightarrow> real" where
  "endpoint_pt pt i = pt ! nat (if i < 0 then int (length pt) + i else i)"

definition valid_index :: "real list \<Rightarrow> int \<Rightarrow> bool" where
  "valid_index pt i = (- int (length pt) \<le> i \<and> i < int (length pt))"

definition kept_edges :: "int list \<Rightarrow> int list \<Rightarrow> real list \<Rightarrow> real \<Rightarrow> nat list" where
  "kept_edges r0 r1 pt pt_min =
     filter (\<lambda>e. endpoint_pt pt (r0 ! e) > pt_min \<or> endpoint_pt pt (r1 ! e) > pt_min)
       [0..<length r0]"

section \<open>Example configurations\<close>

text \<open>
  Metric functions that report how many edges they were given, and two clustering
  functions: one that skips and one that returns a result.
\<close>

definition count_fns :: metric_fns where
  "count_fns = \<lparr>bcs_get_all = (\<lambda>p t thld. [(''n_edges'', Fin (real (length p)))]),
               get_maximized_bcs = (\<lambda>p t. []),
               roc_auc_score = (\<lambda>t p f. Fin (real (length t))),
               denote_pt = (\<lambda>k pt_min. k)\<rparr>"

definition skip_fct :: cluster_fct where
  "skip_fct = (\<lambda>inp ep start. None)"

definition scan_fct :: cluster_fct where
  "scan_fct = (\<lambda>inp ep start. Some \<lparr>metrics = [(''v_measure'', Fin (1/2))], best_params = [(''eps'', Fin 2)]\<rparr>)"

section \<open>Further definitions for the statements\<close>

text \<open>The arrays that a \<open>defaultdict(list)\<close> holds under a key.\<close>

definition entries :: "'v list pydict \<Rightarrow> string \<Rightarrow> 'v list" where
  "entries d k = (case map_of d k of None \<Rightarrow> [] | Some vs \<Rightarrow> vs)"

text \<open>
  All columns of a hit table but \<open>ur\<close> and \<open>vr\<close>, in their order.
\<close>

definition other_columns :: "frame \<Rightarrow> frame" where
  "other_columns hits = filter (\<lambda>(name, vs). name \<noteq> ''ur'' \<and> name \<noteq> ''vr'') hits"

text \<open>
  The coordinates \<open>(u, v)\<close> of the hits rotated by the angle of sector \<open>s\<close> of \<open>n\<close>
  sectors, as \<open>sector_hits\<close> computes them.
\<close>

definition rotated_ur :: "int \<Rightarrow> int \<Rightarrow> real list \<Rightarrow> real list \<Rightarrow> real list" where
  "rotated_ur s n u v =
     (let theta = of_int s * 2 * pi / of_int n
      in map2 (\<lambda>u v. u * cos theta - v * sin theta) u v)"

definition rotated_vr :: "int \<Rightarrow> int \<Rightarrow> real list \<Rightarrow> real list \<Rightarrow> real list" where
  "rotated_vr s n u v =
     (let theta = of_int s * 2 * pi / of_int n
      in map2 (\<lambda>u v. u * sin theta + v * cos theta) u v)"

text \<open>
  A trainer for the loop of \<open>test_step\<close>: one clustering function, ten batches for
  clustering, one required model output, a constant loss and no edge weights.
\<close>

definition eleven_tester :: "real tester" where
  "eleven_tester =
     \<lparr>evaluate_model = (\<lambda>d flag. Inr [(''w'', None), (''x'', Some (Floats [d]))]),
      unpack_returns = unpack_loss_returns,
      loss_functions = [(''loss'', \<lambda>mo. Inr (Scalar (Fin 1)), Scalar (Fin 1))],
      metric_functions = count_fns,
      ec_eval_pt_thlds = [9/10, 3/2],
      ec_threshold = 1/2,
      clustering_functions = [(''scan'', scan_fct)],
      max_batches_for_clustering = 10,
      required_model_outputs = [(''x'', ''x'')]\<rparr>"

text \<open>
  A builder with two sectors and the default margins, and a table of one hit with
  \<open>u = -1\<close> and \<open>v = -1/2\<close>; the augmented table of an event with one hit at
  \<open>(3, 4, 0)\<close>; a packing step that keeps the sector as it is; the same builder with
  \<open>redo=False\<close>, and an output directory that holds the artifact of sector 1 of event 5
  only.
\<close>

definition two_sector_builder :: builder where
  "two_sector_builder =
     \<lparr>n_sectors = 2, redo = True, sector_di = 1/10000, sector_ds = 11/10,
      measurement_mode = False, thld = 1/2\<rparr>"

definition one_hit :: frame where
  "one_hit = [(''u'', [-1]), (''v'', [-1/2]), (''pt'', [1])]"

definition event_hits :: frame where
  "event_hits =
     [(''hit_id'', [1]), (''r'', [5]), (''phi'', [arctan (4/3)]), (''eta_rz'', [0]),
      (''x'', [3]), (''y'', [4]), (''z'', [0]), (''u'', [3/25]), (''v'', [4/25]),
      (''volume_id'', [8]), (''layer'', [0]), (''particle_id'', [7]), (''pt'', [1]),
      (''eta_pt'', [0])]"

definition keep_frame :: "frame \<Rightarrow> error + frame" where
  "keep_frame sector = Inr sector"

definition no_redo_builder :: builder where
  "no_redo_builder = two_sector_builder\<lparr>redo := False\<rparr>"

definition stored_only_s1 :: "frame pstate" where
  "stored_only_s1 =
     \<lparr>hits_table = one_hit, outdir_files = [(''data5_s1.pt'', [])], data_list = [],
      n_sector_hits = 0\<rparr>"

section \<open>Properties of \<open>training_step\<close>\<close>

lemma contains_is_oom: "sublist ''out of memory'' msg \<Longrightarrow> is_oom msg"
  unfolding is_oom_def
  using map_mono_sublist[of "''out of memory''" msg casefold_char]
  by (simp add: casefold_def casefold_char_def)

lemma training_step_oom:
  assumes "is_oom m"
  shows "training_step st (Inl (RuntimeError m)) =
      (st\<lparr>n_oom_errors_in_a_row := n_oom_errors_in_a_row st + 1,
            warnings := warnings st @ [oom_warning]\<rparr>,
       if n_oom_errors_in_a_row st < 10 then Inr None else Inl (RuntimeError m))"
  using assms by (simp add: Let_def)

lemma training_steps_oom_run:
  assumes "\<forall>m \<in> set msgs. is_oom m"
  shows "fst (training_steps st (map (\<lambda>m. Inl (RuntimeError m)) msgs)) =
     map (\<lambda>(i, m). if n_oom_errors_in_a_row st + int i - int j < 10 then Inr None
                    else Inl (RuntimeError m)) (enumerate j msgs)"
  using assms
proof (induction msgs arbitrary: st j)
  case Nil
  then show ?case by simp
next
  case (Cons m ms)
  let ?st' = "st\<lparr>n_oom_errors_in_a_row := n_oom_errors_in_a_row st + 1,
                  warnings := warnings st @ [oom_warning]\<rparr>"
  have step: "training_step st (Inl (RuntimeError m) :: error + 'a) =
      (?st', if n_oom_errors_in_a_row st < 10 then Inr None else Inl (RuntimeError m))"
    using Cons.prems by (simp add: training_step_oom)
  have ih: "fst (training_steps ?st' (map (\<lambda>m. Inl (RuntimeError m)) ms)
                  :: (error + 'a option) list \<times> trainer) =
     map (\<lambda>(i, m). if n_oom_errors_in_a_row ?st' + int i - int (Suc j) < 10 then Inr None
                    else Inl (RuntimeError m)) (enumerate (Suc j) ms)"
    using Cons.prems by (intro Cons.IH) simp
  show ?case
    by (simp add: step ih case_prod_beta del: training_step.simps)
qed

text \<open>
  Claim C2. In any sequence of calls to \<open>training_step\<close>: a \<open>RuntimeError\<close> whose
  message contains "out of memory" (the code tests the case-folded message, so a message
  that contains the text as written passes the test) is swallowed while fewer than ten
  such errors came in a row before it, a warning is logged and the call returns \<open>None\<close>;
  with ten or more before it the error is raised again. A successful step returns its loss
  and sets the counter to zero. A \<open>RuntimeError\<close> that fails the test, and any other
  exception, leaves the call at once with the trainer as it was. From a counter of zero,
  of any number of out-of-memory errors in a row exactly the first ten are swallowed and
  every later one is raised.
\<close>

theorem training_step_oom_policy:
  "(sublist ''out of memory'' msg \<longrightarrow> is_oom msg) \<and>
   (is_oom msg \<and> n_oom_errors_in_a_row st < 10 \<longrightarrow>
      training_step st (Inl (RuntimeError msg) :: error + 'l) =
        (st\<lparr>n_oom_errors_in_a_row := n_oom_errors_in_a_row st + 1,
              warnings := warnings st @ [oom_warning]\<rparr>, Inr None)) \<and>
   (is_oom msg \<and> 10 \<le> n_oom_errors_in_a_row st \<longrightarrow>
      snd (training_step st (Inl (RuntimeError msg) :: error + 'l)) = Inl (RuntimeError msg)) \<and>
   training_step st (Inr loss) = (st\<lparr>n_oom_errors_in_a_row := 0\<rparr>, Inr (Some (loss :: 'l))) \<and>
   (\<not> is_oom msg \<longrightarrow>
      training_step st (Inl (RuntimeError msg) :: error + 'l) = (st, Inl (RuntimeError msg))) \<and>
   ((\<forall>m. e \<noteq> RuntimeError m) \<longrightarrow> training_step st (Inl e :: error + 'l) = (st, Inl e)) \<and>
   (n_oom_errors_in_a_row st = 0 \<and> (\<forall>m \<in> set msgs. is_oom m) \<longrightarrow>
      fst (training_steps st (map (\<lambda>m. Inl (RuntimeError m) :: error + 'l) msgs)) =
        map (\<lambda>(i, m). if i < 10 then Inr None else Inl (RuntimeError m)) (enumerate 0 msgs))"
proof (intro conjI impI)
  show "is_oom msg" if "sublist ''out of memory'' msg"
    using that by (rule contains_is_oom)
next
  assume "is_oom msg \<and> n_oom_errors_in_a_row st < 10"
  then show "training_step st (Inl (RuntimeError msg) :: error + 'l) =
        (st\<lparr>n_oom_errors_in_a_row := n_oom_errors_in_a_row st + 1,
              warnings := warnings st @ [oom_warning]\<rparr>, Inr None)"
    by (simp add: training_step_oom)
next
  assume "is_oom msg \<and> 10 \<le> n_oom_errors_in_a_row st"
  then show "snd (training_step st (Inl (RuntimeError msg) :: error + 'l)) = Inl (RuntimeError msg)"
    by (simp add: training_step_oom)
next
  show "training_step st (Inr loss) = (st\<lparr>n_oom_errors_in_a_row := 0\<rparr>, Inr (Some loss))"
    by simp
next
  assume "\<not> is_oom msg"
  then show "training_step st (Inl (RuntimeError msg) :: error + 'l) = (st, Inl (RuntimeError msg))"
    by simp
next
  assume "\<forall>m. e \<noteq> RuntimeError m"
  then show "training_step st (Inl e :: error + 'l) = (st, Inl e)"
    by (cases e) simp_all
next
  assume a: "n_oom_errors_in_a_row st = 0 \<and> (\<forall>m \<in> set msgs. is_oom m)"
  then have "\<forall>m \<in> set msgs. is_oom m" by simp
  from training_steps_oom_run[OF this, of st 0] a
  show "fst (training_steps st (map (\<lambda>m. Inl (RuntimeError m) :: error + 'l) msgs)) =
        map (\<lambda>(i, m). if i < 10 then Inr None else Inl (RuntimeError m)) (enumerate 0 msgs)"
    by simp
qed

theorem training_step_oom_policy_witness:
  "sublist ''out of memory'' ''CUDA out of memory'' \<and>
   is_oom ''CUDA out of memory'' \<and>
   fst (training_steps \<lparr>n_oom_errors_in_a_row = 0, warnings = []\<rparr>
         (map (\<lambda>m. Inl (RuntimeError m) :: error + real)
            [''CUDA out of memory'', ''CUDA out of memory'', ''CUDA out of memory'',
             ''CUDA out of memory'', ''CUDA out of memory'', ''CUDA out of memory'',
             ''CUDA out of memory'', ''CUDA out of memory'', ''CUDA out of memory'',
             ''CUDA out of memory'', ''CUDA out of memory''])) =
     [Inr None, Inr None, Inr None, Inr None, Inr None, Inr None, Inr None, Inr None,
      Inr None, Inr None, Inl (RuntimeError ''CUDA out of memory'')] \<and>
   training_step \<lparr>n_oom_errors_in_a_row = 9, warnings = []\<rparr>
       (Inl (RuntimeError ''CUDA out of memory'') :: error + real) =
     (\<lparr>n_oom_errors_in_a_row = 10, warnings = [oom_warning]\<rparr>, Inr None) \<and>
   snd (training_step \<lparr>n_oom_errors_in_a_row = 10, warnings = []\<rparr>
       (Inl (RuntimeError ''CUDA out of memory'') :: error + real)) =
     Inl (RuntimeError ''CUDA out of memory'') \<and>
   \<not> is_oom ''shape mismatch'' \<and>
   training_step \<lparr>n_oom_errors_in_a_row = 3, warnings = []\<rparr>
       (Inl (RuntimeError ''shape mismatch'') :: error + real) =
     (\<lparr>n_oom_errors_in_a_row = 3, warnings = []\<rparr>, Inl (RuntimeError ''shape mismatch'')) \<and>
   training_step \<lparr>n_oom_errors_in_a_row = 3, warnings = []\<rparr> (Inl (KeyError ''w'') :: error + real) =
     (\<lparr>n_oom_errors_in_a_row = 3, warnings = []\<rparr>, Inl (KeyError ''w''))"
proof -
  have c: "sublist ''out of memory'' ''CUDA out of memory''"
    by (simp add: sublist_code)
  have n: "\<not> is_oom ''shape mismatch''"
    by (simp add: is_oom_def casefold_def casefold_char_def sublist_code)
  note t = training_step_oom_policy
  have o: "is_oom ''CUDA out of memory''"
    using t[where msg = "''CUDA out of memory''" and st = "\<lparr>n_oom_errors_in_a_row = 0, warnings = []\<rparr>"
         and 'l = real and loss = 0 and e = IndexError and msgs = "[]"] c by blast
  have 1: "fst (training_steps \<lparr>n_oom_errors_in_a_row = 0, warnings = []\<rparr>
         (map (\<lambda>m. Inl (RuntimeError m) :: error + real)
            [''CUDA out of memory'', ''CUDA out of memory'', ''CUDA out of memory'',
             ''CUDA out of memory'', ''CUDA out of memory'', ''CUDA out of memory'',
             ''CUDA out of memory'', ''CUDA out of memory'', ''CUDA out of memory'',
             ''CUDA out of memory'', ''CUDA out of memory''])) =
     [Inr None, Inr None, Inr None, Inr None, Inr None, Inr None, Inr None, Inr None,
      Inr None, Inr None, Inl (RuntimeError ''CUDA out of memory'')]"
    using t[where st = "\<lparr>n_oom_errors_in_a_row = 0, warnings = []\<rparr>" and 'l = real
          and msg = "[]" and loss = 0 and e = IndexError and msgs = "[''CUDA out of memory'', ''CUDA out of memory'', ''CUDA out of memory'',
             ''CUDA out of memory'', ''CUDA out of memory'', ''CUDA out of memory'',
             ''CUDA out of memory'', ''CUDA out of memory'', ''CUDA out of memory'',
             ''CUDA out of memory'', ''CUDA out of memory'']"] o
    by (simp del: training_steps.simps training_step.simps)
  have 2: "training_step \<lparr>n_oom_errors_in_a_row = 9, warnings = []\<rparr>
       (Inl (RuntimeError ''CUDA out of memory'') :: error + real) =
     (\<lparr>n_oom_errors_in_a_row = 10, warnings = [oom_warning]\<rparr>, Inr None)"
    using t[where st = "\<lparr>n_oom_errors_in_a_row = 9, warnings = []\<rparr>" and 'l = real
          and msg = "''CUDA out of memory''" and loss = 0 and e = IndexError and msgs = "[]"] o
    by (simp del: training_steps.simps training_step.simps)
  have 3: "snd (training_step \<lparr>n_oom_errors_in_a_row = 10, warnings = []\<rparr>
       (Inl (RuntimeError ''CUDA out of memory'') :: error + real)) =
     Inl (RuntimeError ''CUDA out of memory'')"
    using t[where st = "\<lparr>n_oom_errors_in_a_row = 10, warnings = []\<rparr>" and 'l = real
          and msg = "''CUDA out of memory''" and loss = 0 and e = IndexError and msgs = "[]"] o
    by (simp del: training_steps.simps training_step.simps)
  have 4: "training_step \<lparr>n_oom_errors_in_a_row = 3, warnings = []\<rparr>
       (Inl (RuntimeError ''shape mismatch'') :: error + real) =
     (\<lparr>n_oom_errors_in_a_row = 3, warnings = []\<rparr>, Inl (RuntimeError ''shape mismatch''))"
    using t[where st = "\<lparr>n_oom_errors_in_a_row = 3, warnings = []\<rparr>" and 'l = real
          and msg = "''shape mismatch''" and loss = 0 and e = IndexError and msgs = "[]"] n
    by (simp del: training_steps.simps training_step.simps)
  have 5: "training_step \<lparr>n_oom_errors_in_a_row = 3, warnings = []\<rparr> (Inl (KeyError ''w'') :: error + real) =
     (\<lparr>n_oom_errors_in_a_row = 3, warnings = []\<rparr>, Inl (KeyError ''w''))"
    using t[where st = "\<lparr>n_oom_errors_in_a_row = 3, warnings = []\<rparr>" and 'l = real
          and e = "KeyError ''w''" and msg = "[]" and loss = 0 and msgs = "[]"]
    by (simp del: training_steps.simps training_step.simps)
  show ?thesis using c o 1 2 3 n 4 5 by blast
qed

text \<open>
  A successful step between out-of-memory errors starts the count again: two errors, a
  success and ten more errors raise nothing.
\<close>

lemma training_steps_reset_example:
  "fst (training_steps \<lparr>n_oom_errors_in_a_row = 0, warnings = []\<rparr>
     ([Inl (RuntimeError ''out of memory''), Inl (RuntimeError ''out of memory''), Inr (1::real)] @
       map (\<lambda>m. Inl (RuntimeError m)) [''out of memory'', ''out of memory'', ''out of memory'',
       ''out of memory'', ''out of memory'', ''out of memory'', ''out of memory'',
       ''out of memory'', ''out of memory'', ''out of memory''])) =
   [Inr None, Inr None, Inr (Some 1), Inr None, Inr None, Inr None, Inr None, Inr None, Inr None, Inr None,
      Inr None, Inr None, Inr None]"
  by (simp add: is_oom_def casefold_def casefold_char_def sublist_code)

section \<open>Properties of \<open>get_batch_losses\<close>\<close>

lemma dict_update_append: "dict_update (dict_update d a) b = dict_update d (a @ b)"
  by (simp add: dict_update_def)

lemma update_fresh: "k \<notin> fst ` set d \<Longrightarrow> AList.update k v d = d @ [(k, v)]"
  by (induction d) auto

lemma dict_update_fresh:
  "distinct (map fst xs) \<Longrightarrow> fst ` set xs \<inter> fst ` set d = {} \<Longrightarrow> dict_update d xs = d @ xs"
proof (induction xs arbitrary: d)
  case Nil
  then show ?case by (simp add: dict_update_def)
next
  case (Cons x xs)
  obtain k v where x: "x = (k, v)" by (cases x)
  have fresh: "k \<notin> fst ` set d" using Cons.prems(2) x by auto
  have "dict_update d (x # xs) = dict_update (d @ [(k, v)]) xs"
    using fresh by (simp add: dict_update_def x update_fresh)
  also have "\<dots> = (d @ [(k, v)]) @ xs"
    using Cons.prems x by (intro Cons.IH) auto
  finally show ?case by (simp add: x)
qed

lemma collect_losses_result:
  "collect_losses unpack lfs out (l0, w0) = Inr (l, w) \<Longrightarrow>
     l = dict_update l0 (unpacked_sub_losses unpack lfs out) \<and>
     w = dict_update w0 (concat (map (\<lambda>(key, loss_func, these_weights). unpack key these_weights) lfs))"
proof (induction lfs arbitrary: l0 w0)
  case Nil
  then show ?case by (simp add: dict_update_def unpacked_sub_losses_def)
next
  case (Cons a lfs)
  obtain key f tw where a: "a = (key, f, tw)" by (cases a)
  from Cons.prems obtain r where r: "f out = Inr r"
    and rest: "collect_losses unpack lfs out
                 (dict_update l0 (unpack key r), dict_update w0 (unpack key tw)) = Inr (l, w)"
    by (auto simp: a split: sum.splits)
  from Cons.IH[OF rest] show ?case
    by (simp add: a r dict_update_append unpacked_sub_losses_def)
qed

lemma defaultdict_get_fst: "fst (defaultdict_get ws k) = weight_of ws k"
  by (simp add: defaultdict_get_def weight_of_def split: option.splits)

lemma defaultdict_get_snd: "weight_of (snd (defaultdict_get ws k)) k' = weight_of ws k'"
  by (auto simp: defaultdict_get_def weight_of_def map_add_def split: option.splits)

lemma weighted_total_fst:
  "fst (weighted_total items ws acc) =
     foldl fl_add acc (map (\<lambda>(k, v). fl_mul (weight_of ws k) v) items)"
proof (induction items arbitrary: ws acc)
  case Nil
  then show ?case by simp
next
  case (Cons a items)
  obtain k v where a: "a = (k, v)" by (cases a)
  have eq: "(\<lambda>(k', v'). fl_mul (weight_of (snd (defaultdict_get ws k)) k') v') =
            (\<lambda>(k', v'). fl_mul (weight_of ws k') v')"
    by (simp add: defaultdict_get_snd)
  show ?case
    using Cons.IH[of "snd (defaultdict_get ws k)" "fl_add acc (fl_mul (fst (defaultdict_get ws k)) v)"]
    by (simp add: a case_prod_beta eq defaultdict_get_fst)
qed

lemma weighted_total_weights:
  "weight_of (snd (weighted_total items ws acc)) k = weight_of ws k"
proof (induction items arbitrary: ws acc)
  case Nil
  then show ?case by simp
next
  case (Cons a items)
  obtain k' v where a: "a = (k', v)" by (cases a)
  show ?case
    using Cons.IH[of "snd (defaultdict_get ws k')" "fl_add acc (fl_mul (fst (defaultdict_get ws k')) v)"]
    by (simp add: a case_prod_beta defaultdict_get_snd)
qed

text \<open>
  Claim C4. Whenever \<open>get_batch_losses\<close> returns, for every way of unpacking and every
  configuration of loss functions (returning a scalar, a list or a mapping): the total is
  the sum, over the sub-losses of the returned dictionary \<open>losses\<close>, of the weight of the
  key times the sub-loss, where a key without a specified weight has weight 1.0;
  \<open>losses\<close> holds the unpacked sub-losses of all loss functions by key, and is the list
  of all of them when their keys differ; the returned weights give every key the same
  weight as the specified ones.
\<close>

theorem get_batch_losses_total:
  assumes "get_batch_losses unpack lfs out = Inr (tot, losses, weights)"
  shows "tot = weighted_sum (specified_weights unpack lfs) losses \<and>
         losses = dict_update [] (unpacked_sub_losses unpack lfs out) \<and>
         (distinct (map fst (unpacked_sub_losses unpack lfs out)) \<longrightarrow>
            losses = unpacked_sub_losses unpack lfs out) \<and>
         (\<forall>k. weight_of weights k = weight_of (specified_weights unpack lfs) k)"
proof -
  from assms obtain w0 where c: "collect_losses unpack lfs out ([], []) = Inr (losses, w0)"
    and t: "weighted_total losses w0 (Fin 0) = (tot, weights)"
    by (auto simp: get_batch_losses_def split: sum.splits if_splits prod.splits)
  from collect_losses_result[OF c] have l: "losses = dict_update [] (unpacked_sub_losses unpack lfs out)"
    and w: "w0 = specified_weights unpack lfs"
    by (simp_all add: specified_weights_def)
  have 1: "tot = weighted_sum (specified_weights unpack lfs) losses"
    using weighted_total_fst[of losses w0 "Fin 0"] t w by (simp add: weighted_sum_def)
  have 2: "distinct (map fst (unpacked_sub_losses unpack lfs out)) \<longrightarrow>
            losses = unpacked_sub_losses unpack lfs out"
    using l dict_update_fresh[of "unpacked_sub_losses unpack lfs out" "[]"] by simp
  have 3: "\<forall>k. weight_of weights k = weight_of (specified_weights unpack lfs) k"
    using weighted_total_weights[of losses w0 "Fin 0"] t w by simp
  show ?thesis using 1 l 2 3 by blast
qed

theorem get_batch_losses_total_witness:
  "get_batch_losses unpack_loss_returns
      [(''a'', \<lambda>_. Inr (Scalar (Fin 2)), Scalar (Fin 3)),
       (''b'', \<lambda>_. Inr (Seq [Fin 1, Fin 4]), Seq [Fin 2, Fin (1/2)]),
       (''c'', \<lambda>_. Inr (Mapping [(''x'', Fin 5), (''y'', Fin 7)]), Mapping [(''x'', Fin 2)])] () =
     Inr (Fin 27,
          [(''a'', Fin 2), (''b_0'', Fin 1), (''b_1'', Fin 4), (''c_x'', Fin 5), (''c_y'', Fin 7)],
          [(''a'', Fin 3), (''b_0'', Fin 2), (''b_1'', Fin (1/2)), (''c_x'', Fin 2), (''c_y'', Fin 1)]) \<and>
   Fin 27 = weighted_sum
      (specified_weights unpack_loss_returns
        [(''a'', \<lambda>_::unit. Inr (Scalar (Fin 2)) :: error + fl returns, Scalar (Fin 3)),
         (''b'', \<lambda>_. Inr (Seq [Fin 1, Fin 4]), Seq [Fin 2, Fin (1/2)]),
         (''c'', \<lambda>_. Inr (Mapping [(''x'', Fin 5), (''y'', Fin 7)]), Mapping [(''x'', Fin 2)])])
      [(''a'', Fin 2), (''b_0'', Fin 1), (''b_1'', Fin 4), (''c_x'', Fin 5), (''c_y'', Fin 7)]"
proof -
  have r: "get_batch_losses unpack_loss_returns
      [(''a'', \<lambda>_. Inr (Scalar (Fin 2)), Scalar (Fin 3)),
       (''b'', \<lambda>_. Inr (Seq [Fin 1, Fin 4]), Seq [Fin 2, Fin (1/2)]),
       (''c'', \<lambda>_. Inr (Mapping [(''x'', Fin 5), (''y'', Fin 7)]), Mapping [(''x'', Fin 2)])] () =
     Inr (Fin 27,
          [(''a'', Fin 2), (''b_0'', Fin 1), (''b_1'', Fin 4), (''c_x'', Fin 5), (''c_y'', Fin 7)],
          [(''a'', Fin 3), (''b_0'', Fin 2), (''b_1'', Fin (1/2)), (''c_x'', Fin 2), (''c_y'', Fin 1)])"
    by (simp add: get_batch_losses_def dict_update_def defaultdict_get_def str_nat.simps)
  from get_batch_losses_total[OF r] r show ?thesis by blast
qed

text \<open>
  Claim C3, as stated, fails: a loss function that returns an infinite loss gives an
  infinite total, which is not a finite number, and \<open>get_batch_losses\<close> returns it
  without raising.
\<close>

theorem get_batch_losses_infinite_total:
  "get_batch_losses unpack_loss_returns [(''loss'', \<lambda>_. Inr (Scalar PInf), Scalar (Fin 1))] () =
     Inr (PInf, [(''loss'', PInf)], [(''loss'', Fin 1)]) \<and> \<not> isfinite PInf"
  by (simp add: get_batch_losses_def dict_update_def defaultdict_get_def inf_times_def)

text \<open>
  Claim C3, amended. When the loss functions return without raising and give at least one
  sub-loss, \<open>get_batch_losses\<close> raises if and only if the total weighted loss is NaN,
  and what it raises then is its \<open>RuntimeError\<close>; any other total, an infinite one too,
  is returned as computed, never clamped or replaced.
\<close>

theorem get_batch_losses_nan_only:
  assumes "collect_losses unpack lfs out ([], []) = Inr (losses, w0)" and "losses \<noteq> []"
  shows "((\<exists>e. get_batch_losses unpack lfs out = Inl e) \<longleftrightarrow> isnan (weighted_sum w0 losses)) \<and>
         (isnan (weighted_sum w0 losses) \<longrightarrow> get_batch_losses unpack lfs out = Inl (RuntimeError nan_message)) \<and>
         (\<not> isnan (weighted_sum w0 losses) \<longrightarrow>
            get_batch_losses unpack lfs out =
              Inr (weighted_sum w0 losses, losses, snd (weighted_total losses w0 (Fin 0))))"
  using assms weighted_total_fst[of losses w0 "Fin 0"]
  by (auto simp: get_batch_losses_def weighted_sum_def split: prod.splits)

theorem get_batch_losses_nan_only_witness:
  "collect_losses unpack_loss_returns [(''loss'', \<lambda>_. Inr (Scalar NaN), Scalar (Fin 1))] () ([], []) =
     Inr ([(''loss'', NaN)], [(''loss'', Fin 1)]) \<and>
   [(''loss'', NaN)] \<noteq> [] \<and>
   isnan (weighted_sum [(''loss'', Fin 1)] [(''loss'', NaN)]) \<and>
   get_batch_losses unpack_loss_returns [(''loss'', \<lambda>_. Inr (Scalar NaN), Scalar (Fin 1))] () =
     Inl (RuntimeError nan_message)"
proof -
  have c: "collect_losses unpack_loss_returns [(''loss'', \<lambda>_. Inr (Scalar NaN), Scalar (Fin 1))] () ([], []) =
     Inr ([(''loss'', NaN)], [(''loss'', Fin 1)])"
    by (simp add: dict_update_def)
  have n: "[(''loss'', NaN)] \<noteq> ([] :: fl pydict)" by simp
  have i: "isnan (weighted_sum [(''loss'', Fin 1)] [(''loss'', NaN)])"
    by (simp add: weighted_sum_def weight_of_def)
  from get_batch_losses_nan_only[OF c n] i c show ?thesis by blast
qed

text \<open>With no loss function configured the call fails on the type of the empty sum.\<close>

lemma get_batch_losses_empty:
  "get_batch_losses unpack [] out = Inl (TypeError ''isnan(): argument must be Tensor, not int'')"
  by (simp add: get_batch_losses_def)

section \<open>Properties of the edge mask\<close>

lemma index_pt_valid: "valid_index pt i \<Longrightarrow> index_pt pt i = Inr (endpoint_pt pt i)"
  by (auto simp: index_pt_def valid_index_def endpoint_pt_def Let_def)

lemma gather_valid:
  "\<forall>i \<in> set idx. valid_index pt i \<Longrightarrow> gather pt idx = Inr (map (endpoint_pt pt) idx)"
  by (induction idx) (simp_all add: bind_def index_pt_valid)

lemma edge_pt_mask_valid:
  assumes "\<forall>i \<in> set r0 \<union> set r1. valid_index pt i"
  shows "edge_pt_mask (r0, r1) pt pt_min =
     Inr (map2 (\<lambda>a b. a > pt_min \<or> b > pt_min) (map (endpoint_pt pt) r0) (map (endpoint_pt pt) r1))"
  using assms by (simp add: edge_pt_mask_def bind_def gather_valid)

lemma mask_select_nth:
  assumes "length xs = length m"
  shows "map fst (filter snd (zip xs m)) = map ((!) xs) (filter ((!) m) [0..<length xs])"
proof -
  have "zip xs m = map (\<lambda>i. (xs ! i, m ! i)) [0..<length xs]"
    using assms by (intro nth_equalityI) auto
  then show ?thesis by (simp add: filter_map comp_def)
qed

lemma map2_mask_nth:
  assumes "length r0 = length r1"
  shows "filter ((!) (map2 (\<lambda>a b. a > pt_min \<or> b > pt_min) (map (endpoint_pt pt) r0) (map (endpoint_pt pt) r1)))
            [0..<length r0] = kept_edges r0 r1 pt pt_min"
  unfolding kept_edges_def using assms
  by (intro filter_cong) auto

text \<open>
  Claim C8. For every edge index, momentum vector and threshold \<open>pt_min\<close> (the indices
  naming hits, the edge weights and labels having one entry for every edge): the mask
  keeps an edge if and only if at least one of its two end points has a momentum strictly
  above \<open>pt_min\<close>, that is, it drops exactly the edges of which both end points are at or
  below it; and the metrics are computed from the predictions and labels of the kept
  edges, in their order, and from nothing else of the edges.
\<close>

theorem edge_pt_mask_feeds_metrics:
  assumes ei: "getitem mo ''edge_index'' = Inr (Some (Edges r0 r1))"
    and pt: "getitem mo ''pt'' = Inr (Some (Floats pt))"
    and w: "getitem mo ''w'' = Inr (Some (Floats w))"
    and y: "getitem mo ''y'' = Inr (Some (Floats y))"
    and len: "length r1 = length r0" "length w = length r0" "length y = length r0"
    and valid: "\<forall>i \<in> set r0 \<union> set r1. valid_index pt i"
  shows "(\<exists>m. edge_pt_mask (r0, r1) pt pt_min = Inr m \<and> length m = length r0 \<and>
            (\<forall>e < length r0. m ! e \<longleftrightarrow>
               (endpoint_pt pt (r0 ! e) > pt_min \<or> endpoint_pt pt (r1 ! e) > pt_min)) \<and>
            (\<forall>e < length r0. \<not> m ! e \<longleftrightarrow>
               (endpoint_pt pt (r0 ! e) \<le> pt_min \<and> endpoint_pt pt (r1 ! e) \<le> pt_min))) \<and>
         evaluate_ec_metrics_with_pt_thld fns mo pt_min thr =
           Inr (dict_update []
                  (map (\<lambda>(k, v). (denote_pt fns k pt_min, v))
                     (ec_metrics_of fns
                        (map ((!) w) (kept_edges r0 r1 pt pt_min))
                        (map (\<lambda>e. long (y ! e)) (kept_edges r0 r1 pt pt_min)) thr)))"
proof -
  let ?m = "map2 (\<lambda>a b. a > pt_min \<or> b > pt_min) (map (endpoint_pt pt) r0) (map (endpoint_pt pt) r1)"
  have m: "edge_pt_mask (r0, r1) pt pt_min = Inr ?m"
    using valid by (rule edge_pt_mask_valid)
  have lm: "length ?m = length r0" using len by simp
  have nth: "?m ! e \<longleftrightarrow> (endpoint_pt pt (r0 ! e) > pt_min \<or> endpoint_pt pt (r1 ! e) > pt_min)"
    if "e < length r0" for e
    using that len by simp
  have first: "\<exists>m. edge_pt_mask (r0, r1) pt pt_min = Inr m \<and> length m = length r0 \<and>
            (\<forall>e < length r0. m ! e \<longleftrightarrow>
               (endpoint_pt pt (r0 ! e) > pt_min \<or> endpoint_pt pt (r1 ! e) > pt_min)) \<and>
            (\<forall>e < length r0. \<not> m ! e \<longleftrightarrow>
               (endpoint_pt pt (r0 ! e) \<le> pt_min \<and> endpoint_pt pt (r1 ! e) \<le> pt_min))"
  proof (intro exI[of _ ?m] conjI allI impI)
    show "edge_pt_mask (r0, r1) pt pt_min = Inr ?m" by (rule m)
    show "length ?m = length r0" by (rule lm)
    show "?m ! e \<longleftrightarrow> (endpoint_pt pt (r0 ! e) > pt_min \<or> endpoint_pt pt (r1 ! e) > pt_min)"
      if "e < length r0" for e using that by (rule nth)
    show "\<not> ?m ! e \<longleftrightarrow> (endpoint_pt pt (r0 ! e) \<le> pt_min \<and> endpoint_pt pt (r1 ! e) \<le> pt_min)"
      if "e < length r0" for e using nth[OF that] by auto
  qed
  have kept: "filter ((!) ?m) [0..<length r0] = kept_edges r0 r1 pt pt_min"
    using len(1) by (intro map2_mask_nth) simp
  have sw: "mask_select w ?m = Inr (map ((!) w) (kept_edges r0 r1 pt pt_min))"
    using mask_select_nth[of w ?m] lm len kept by (simp add: mask_select_def)
  have sy: "mask_select y ?m = Inr (map ((!) y) (kept_edges r0 r1 pt pt_min))"
    using mask_select_nth[of y ?m] lm len kept by (simp add: mask_select_def)
  have second: "evaluate_ec_metrics_with_pt_thld fns mo pt_min thr =
           Inr (dict_update []
                  (map (\<lambda>(k, v). (denote_pt fns k pt_min, v))
                     (ec_metrics_of fns
                        (map ((!) w) (kept_edges r0 r1 pt pt_min))
                        (map (\<lambda>e. long (y ! e)) (kept_edges r0 r1 pt pt_min)) thr)))"
    unfolding evaluate_ec_metrics_with_pt_thld_def
    by (simp add: ei pt w y m sw sy bind_def comp_def)
  show ?thesis using first second by (rule conjI)
qed

theorem edge_pt_mask_feeds_metrics_witness:
  "kept_edges [0, 2] [1, 3] [1/2, 3/10, 2, 1/10] (9/10) = [1] \<and>
   evaluate_ec_metrics_with_pt_thld count_fns
     [(''w'', Some (Floats [4/5, 2/5])), (''y'', Some (Floats [1, 0])),
      (''pt'', Some (Floats [1/2, 3/10, 2, 1/10])), (''edge_index'', Some (Edges [0, 2] [1, 3]))]
     (9/10) (1/2) =
     Inr [(''n_edges'', Fin 1), (''roc_auc'', Fin 1), (''roc_auc_0.001FPR'', Fin 1),
          (''roc_auc_0.01FPR'', Fin 1), (''roc_auc_0.1FPR'', Fin 1)]"
proof -
  have k: "kept_edges [0, 2] [1, 3] [1/2, 3/10, 2, 1/10] (9/10) = [1]"
    by (simp add: kept_edges_def endpoint_pt_def upt_rec)
  have v: "\<forall>i \<in> set [0, 2] \<union> set [1, 3]. valid_index [1/2, 3/10, 2, 1/10 :: real] i"
    by (simp add: valid_index_def)
  from edge_pt_mask_feeds_metrics[where mo = "[(''w'', Some (Floats [4/5, 2/5])), (''y'', Some (Floats [1, 0])),
      (''pt'', Some (Floats [1/2, 3/10, 2, 1/10])), (''edge_index'', Some (Edges [0, 2] [1, 3]))]"
     and ?r0.0 = "[0, 2]" and ?r1.0 = "[1, 3]" and pt = "[1/2, 3/10, 2, 1/10]" and w = "[4/5, 2/5]"
     and y = "[1, 0]" and pt_min = "9/10" and thr = "1/2" and fns = count_fns, OF _ _ _ _ _ _ _ v]
  have "evaluate_ec_metrics_with_pt_thld count_fns
     [(''w'', Some (Floats [4/5, 2/5])), (''y'', Some (Floats [1, 0])),
      (''pt'', Some (Floats [1/2, 3/10, 2, 1/10])), (''edge_index'', Some (Edges [0, 2] [1, 3]))]
     (9/10) (1/2) =
     Inr (dict_update []
                  (map (\<lambda>(k, v). (denote_pt count_fns k (9/10), v))
                     (ec_metrics_of count_fns
                        (map ((!) [4/5, 2/5]) (kept_edges [0, 2] [1, 3] [1/2, 3/10, 2, 1/10] (9/10)))
                        (map (\<lambda>e. long ([1, 0] ! e)) (kept_edges [0, 2] [1, 3] [1/2, 3/10, 2, 1/10] (9/10))) (1/2))))"
    by (simp add: getitem_def)
  then show ?thesis
    by (simp add: k ec_metrics_of_def count_fns_def dict_update_def)
qed
section \<open>Properties of \<open>_evaluate_cluster_metrics\<close>\<close>

lemma map_of_update: "map_of (AList.update k v c) k' = (if k' = k then Some v else map_of c k')"
  by (simp add: update_conv')

lemma cluster_skip:
  "fct inp ep (dict_get cache name) = None \<Longrightarrow>
   cluster_metrics_loop ((name, fct) # rest) inp ep (ms, cache) =
   cluster_metrics_loop rest inp ep (ms, cache)"
  by simp

lemma cluster_loop_other:
  "name \<notin> fst ` set fns \<Longrightarrow>
   map_of (snd (cluster_metrics_loop fns inp ep (ms, cache))) name = map_of cache name"
proof (induction fns arbitrary: ms cache)
  case Nil
  then show ?case by simp
next
  case (Cons a fns)
  obtain n g where a: "a = (n, g)" by (cases a)
  have ne: "n \<noteq> name" and rest: "name \<notin> fst ` set fns" using Cons.prems a by auto
  show ?case
  proof (cases "g inp ep (dict_get cache n)")
    case None
    then show ?thesis using Cons.IH[OF rest] by (simp add: a)
  next
    case (Some r)
    then show ?thesis using Cons.IH[OF rest] ne by (simp add: a map_of_update)
  qed
qed

lemma cluster_loop_skip:
  assumes "distinct (map fst fns)" "(name, fct) \<in> set fns"
    "fct inp ep (dict_get cache name) = None"
  shows "cluster_metrics_loop fns inp ep (ms, cache) =
         cluster_metrics_loop (filter (\<lambda>(n, g). n \<noteq> name) fns) inp ep (ms, cache)"
  using assms
proof (induction fns arbitrary: ms cache)
  case Nil
  then show ?case by simp
next
  case (Cons a fns)
  obtain n g where a: "a = (n, g)" by (cases a)
  show ?case
  proof (cases "n = name")
    case True
    then have g: "g = fct" using Cons.prems(1,2) a by (auto simp: image_iff)
    have "name \<notin> fst ` set fns" using Cons.prems(1) a True by simp
    then have "filter (\<lambda>(n, g). n \<noteq> name) fns = fns"
      by (intro filter_True) (auto simp: image_iff)
    then show ?thesis using Cons.prems(3) by (simp add: a True g)
  next
    case False
    then have mem: "(name, fct) \<in> set fns" using Cons.prems(2) a by auto
    have d: "distinct (map fst fns)" using Cons.prems(1) by simp
    show ?thesis
    proof (cases "g inp ep (dict_get cache n)")
      case None
      then show ?thesis using Cons.IH[OF d mem Cons.prems(3)] False by (simp add: a)
    next
      case (Some r)
      have "dict_get (AList.update n (Some (best_params r)) cache) name = dict_get cache name"
        using False by (simp add: dict_get_def map_of_update)
      then have "fct inp ep (dict_get (AList.update n (Some (best_params r)) cache) name) = None"
        using Cons.prems(3) by simp
      from Cons.IH[OF d mem this] show ?thesis using False Some by (simp add: a)
    qed
  qed
qed

lemma cluster_loop_entry:
  assumes "distinct (map fst fns)" "(name, fct) \<in> set fns"
  shows "map_of (snd (cluster_metrics_loop fns inp ep (ms, cache))) name =
     (case fct inp ep (dict_get cache name) of
        None \<Rightarrow> map_of cache name
      | Some r \<Rightarrow> Some (Some (best_params r)))"
  using assms
proof (induction fns arbitrary: ms cache)
  case Nil
  then show ?case by simp
next
  case (Cons a fns)
  obtain n g where a: "a = (n, g)" by (cases a)
  show ?case
  proof (cases "n = name")
    case True
    then have g: "g = fct" using Cons.prems(1,2) a by (auto simp: image_iff)
    have rest: "name \<notin> fst ` set fns" using Cons.prems(1) a True by simp
    show ?thesis
      using cluster_loop_other[OF rest]
      by (simp add: a True g map_of_update split: option.splits)
  next
    case False
    then have mem: "(name, fct) \<in> set fns" using Cons.prems(2) a by auto
    have d: "distinct (map fst fns)" using Cons.prems(1) by simp
    show ?thesis
    proof (cases "g inp ep (dict_get cache n)")
      case None
      then show ?thesis using Cons.IH[OF d mem] by (simp add: a)
    next
      case (Some r)
      have "dict_get (AList.update n (Some (best_params r)) cache) name = dict_get cache name"
        using False by (simp add: dict_get_def map_of_update)
      then show ?thesis using Cons.IH[OF d mem, of _ "AList.update n (Some (best_params r)) cache"] False Some
        by (auto simp: a map_of_update split: option.splits)
    qed
  qed
qed

text \<open>
  Claim C10. In a call of \<open>_evaluate_cluster_metrics\<close> that returns (the names of the
  clustering functions are the keys of a dictionary, so they differ): for a name whose
  function returns \<open>None\<close>, the cache entry of the name is what it was, and the metrics
  and the cache are those of the call without that function; the entry of a name is
  overwritten, with the best parameters of the result, when its function returns a
  result; the entry of any other name stays.
\<close>

theorem cluster_cache_overwritten_only_on_result:
  assumes "distinct (map fst fns)"
    and "evaluate_cluster_metrics fns ep cache inp = Inr (ms, cache')"
  shows "(\<forall>name fct. (name, fct) \<in> set fns \<and> fct inp ep (dict_get cache name) = None \<longrightarrow>
            map_of cache' name = map_of cache name \<and>
            evaluate_cluster_metrics (filter (\<lambda>(n, g). n \<noteq> name) fns) ep cache inp =
              Inr (ms, cache')) \<and>
         (\<forall>name fct r. (name, fct) \<in> set fns \<and> fct inp ep (dict_get cache name) = Some r \<longrightarrow>
            map_of cache' name = Some (Some (best_params r))) \<and>
         (\<forall>name. name \<notin> fst ` set fns \<longrightarrow> map_of cache' name = map_of cache name)"
proof -
  from assms(2) have loop: "cluster_metrics_loop fns inp ep ([], cache) = (ms, cache')"
    and noclash: "fns = [] \<or> \<not> (''epoch'' \<in> fst ` set inp \<or> ''start_params'' \<in> fst ` set inp)"
    by (auto simp: evaluate_cluster_metrics_def split: if_splits)
  have c': "cache' = snd (cluster_metrics_loop fns inp ep ([], cache))" using loop by simp
  have 1: "map_of cache' name = map_of cache name \<and>
           evaluate_cluster_metrics (filter (\<lambda>(n, g). n \<noteq> name) fns) ep cache inp = Inr (ms, cache')"
    if "(name, fct) \<in> set fns \<and> fct inp ep (dict_get cache name) = None" for name fct
  proof -
    from that have mem: "(name, fct) \<in> set fns" and none: "fct inp ep (dict_get cache name) = None"
      by simp_all
    have "map_of cache' name = map_of cache name"
      unfolding c' using cluster_loop_entry[OF assms(1) mem, of inp ep "[]" cache] none by simp
    moreover have "cluster_metrics_loop (filter (\<lambda>(n, g). n \<noteq> name) fns) inp ep ([], cache) = (ms, cache')"
      using cluster_loop_skip[OF assms(1) mem none, of "[]"] loop by simp
    moreover have "\<not> (''epoch'' \<in> fst ` set inp \<or> ''start_params'' \<in> fst ` set inp)"
      using noclash mem by auto
    ultimately show ?thesis by (simp add: evaluate_cluster_metrics_def)
  qed
  have 2: "map_of cache' name = Some (Some (best_params r))"
    if "(name, fct) \<in> set fns \<and> fct inp ep (dict_get cache name) = Some r" for name fct r
    unfolding c' using cluster_loop_entry[OF assms(1), of name fct inp ep "[]" cache] that by simp
  have 3: "map_of cache' name = map_of cache name" if "name \<notin> fst ` set fns" for name
    unfolding c' using that by (rule cluster_loop_other)
  show ?thesis using 1 2 3 by blast
qed

theorem cluster_cache_overwritten_only_on_result_witness:
  "distinct (map fst [(''dbscan'', skip_fct), (''scan'', scan_fct)]) \<and>
   evaluate_cluster_metrics [(''dbscan'', skip_fct), (''scan'', scan_fct)] 3
       [(''dbscan'', Some [(''eps'', Fin 7)])] [(''x'', [Floats [1]])] =
     Inr ([(''v_measure'', Fin (1/2)), (''best_scan_eps'', Fin 2)],
          [(''dbscan'', Some [(''eps'', Fin 7)]), (''scan'', Some [(''eps'', Fin 2)])]) \<and>
   skip_fct [(''x'', [Floats [1]])] 3 (dict_get [(''dbscan'', Some [(''eps'', Fin 7)])] ''dbscan'') = None \<and>
   map_of [(''dbscan'', Some [(''eps'', Fin 7)]), (''scan'', Some [(''eps'', Fin 2)])] ''dbscan'' =
     map_of [(''dbscan'', Some [(''eps'', Fin 7)])] ''dbscan'' \<and>
   evaluate_cluster_metrics (filter (\<lambda>(n, g). n \<noteq> ''dbscan'') [(''dbscan'', skip_fct), (''scan'', scan_fct)]) 3
       [(''dbscan'', Some [(''eps'', Fin 7)])] [(''x'', [Floats [1]])] =
     Inr ([(''v_measure'', Fin (1/2)), (''best_scan_eps'', Fin 2)],
          [(''dbscan'', Some [(''eps'', Fin 7)]), (''scan'', Some [(''eps'', Fin 2)])])"
proof -
  have d: "distinct (map fst [(''dbscan'', skip_fct), (''scan'', scan_fct)])" by simp
  have e: "evaluate_cluster_metrics [(''dbscan'', skip_fct), (''scan'', scan_fct)] 3
       [(''dbscan'', Some [(''eps'', Fin 7)])] [(''x'', [Floats [1]])] =
     Inr ([(''v_measure'', Fin (1/2)), (''best_scan_eps'', Fin 2)],
          [(''dbscan'', Some [(''eps'', Fin 7)]), (''scan'', Some [(''eps'', Fin 2)])])"
    by (simp add: evaluate_cluster_metrics_def skip_fct_def scan_fct_def dict_update_def)
  have s: "skip_fct [(''x'', [Floats [1]])] 3 (dict_get [(''dbscan'', Some [(''eps'', Fin 7)])] ''dbscan'') = None"
    by (simp add: skip_fct_def)
  have m: "(''dbscan'', skip_fct) \<in> set [(''dbscan'', skip_fct), (''scan'', scan_fct)]" by simp
  from cluster_cache_overwritten_only_on_result[OF d e] m s
  have "map_of [(''dbscan'', Some [(''eps'', Fin 7)]), (''scan'', Some [(''eps'', Fin 2)])] ''dbscan'' =
     map_of [(''dbscan'', Some [(''eps'', Fin 7)])] ''dbscan'' \<and>
   evaluate_cluster_metrics (filter (\<lambda>(n, g). n \<noteq> ''dbscan'') [(''dbscan'', skip_fct), (''scan'', scan_fct)]) 3
       [(''dbscan'', Some [(''eps'', Fin 7)])] [(''x'', [Floats [1]])] =
     Inr ([(''v_measure'', Fin (1/2)), (''best_scan_eps'', Fin 2)],
          [(''dbscan'', Some [(''eps'', Fin 7)]), (''scan'', Some [(''eps'', Fin 2)])])"
    by blast
  with d e s show ?thesis by blast
qed

section \<open>Properties of the loop of \<open>test_step\<close>\<close>

text \<open>
  Without \<open>max_batches\<close> and with a clustering function, a loop that ends without an
  exception has appended, for every clustering input key, one array per required model
  output of that key for every batch whose index is at most
  \<open>max_batches_for_clustering\<close>.
\<close>

lemma entries_list_append:
  "entries (list_append d k v) k' = (if k' = k then entries d k @ [v] else entries d k')"
  by (auto simp: entries_def list_append_def update_conv' split: option.splits)

lemma accumulate_count:
  "accumulate req mo cei = Inr cei' \<Longrightarrow>
   length (entries cei' k) = length (entries cei k) + count_list (map snd req) k"
proof (induction req arbitrary: cei)
  case Nil
  then show ?case by simp
next
  case (Cons a req)
  obtain mk ck where a: "a = (mk, ck)" by (cases a)
  from Cons.prems obtain t where
    rest: "accumulate req mo (list_append cei ck t) = Inr cei'"
    by (auto simp: a split: sum.splits option.splits)
  from Cons.IH[OF rest] show ?case
    by (simp add: a entries_list_append)
qed

lemma test_batch_count:
  assumes "test_batch self i data (bm, cei) = Inr (bm', cei')"
  shows "length (entries cei' k) = length (entries cei k) +
           (if clustering_functions self \<noteq> [] \<and> int i \<le> max_batches_for_clustering self
            then count_list (map snd (required_model_outputs self)) k else 0)"
  using assms accumulate_count[of "required_model_outputs self" _ cei cei' k]
  by (auto simp: test_batch_def bind_def Let_def split: sum.splits prod.splits if_splits)

lemma test_step_loop_count:
  assumes "test_step_loop self None i loader (bm, cei) = Inr (bm', cei')"
    and "clustering_functions self \<noteq> []"
  shows "length (entries cei' k) = length (entries cei k) +
           count_list (map snd (required_model_outputs self)) k *
           length (filter (\<lambda>j. int j \<le> max_batches_for_clustering self) [i..<i + length loader])"
  using assms(1)
proof (induction loader arbitrary: i bm cei)
  case Nil
  then show ?case by simp
next
  case (Cons d loader)
  from Cons.prems obtain bm1 cei1 where
    b: "test_batch self i d (bm, cei) = Inr (bm1, cei1)"
    and r: "test_step_loop self None (Suc i) loader (bm1, cei1) = Inr (bm', cei')"
    by (auto split: sum.splits)
  have u: "[i..<i + length (d # loader)] = i # [Suc i..<Suc i + length loader]"
    by (simp add: upt_rec)
  show ?case
    using Cons.IH[OF r] test_batch_count[OF b, of k] assms(2)
    by (simp only: u) (simp add: algebra_simps)
qed
lemma eleven_batch:
  "test_batch eleven_tester i d (bm, cei) =
     Inr (list_append (list_append (list_append bm ''total'' (Fin 1)) ''loss'' (Fin 1)) ''loss_weighted'' (Fin 1),
          if int i \<le> 10 then list_append cei ''x'' (Floats [d]) else cei)"
  by (simp add: test_batch_def eleven_tester_def bind_def get_batch_losses_def dict_update_def
      defaultdict_get_def evaluate_ec_metrics_def getitem_def weight_of_def)

text \<open>
  Claim C7, at a loader of thirteen batches with \<open>max_batches_for_clustering = 10\<close>:
  the accumulator of the required key receives the arrays of eleven batches, those of
  index 0 to 10, one more than the configured number.
\<close>

theorem test_step_accumulates_eleven:
  "max_batches_for_clustering eleven_tester = 10 \<and>
   (case test_step_loop eleven_tester None 0 [0, 1, 2, 3, 4, 5, 6, 7, 8, 9, 10, 11, 12] ([], []) of
      Inl e \<Rightarrow> None
    | Inr (batch_metrics, cluster_eval_input) \<Rightarrow> Some cluster_eval_input) =
   Some [(''x'', [Floats [0], Floats [1], Floats [2], Floats [3], Floats [4], Floats [5],
                  Floats [6], Floats [7], Floats [8], Floats [9], Floats [10]])]"
  by (simp add: eleven_batch list_append_def) (simp add: eleven_tester_def)

section \<open>Properties of \<open>sector_hits\<close>\<close>

text \<open>
  With one slope, the tests that the code writes are the tests of the spec: the two
  differ in the slope only.
\<close>

lemma arctan_pi_gt: "1/2 < arctan pi"
proof -
  have "arctan 1 < arctan pi" using pi_ge_two by (simp add: arctan_less_iff)
  moreover have "1/2 \<le> pi/4" using pi_ge_two by simp
  ultimately show ?thesis by (simp add: arctan_one)
qed

lemma in_extended_sector_abs:
  "in_extended_sector ds di slope ur vr = spec_in_extended_sector ds di slope ur vr"
  by (auto simp: in_extended_sector_def spec_in_extended_sector_def)

lemma in_sector_abs: "in_sector slope ur vr = spec_in_sector slope ur vr"
  by (auto simp: in_sector_def spec_in_sector_def)

text \<open>
  Outside the measurement mode, with more than one sector and the columns \<open>u\<close> and
  \<open>v\<close> present, the extended sector that \<open>sector_hits\<close> returns holds exactly the rows
  that pass the test of the spec with the slope \<open>arctan theta\<close>.
\<close>

lemma sector_hits_extended:
  assumes "n_sectors self \<noteq> 1" "n_sectors self \<noteq> 0" "\<not> measurement_mode self"
    and "column hits ''u'' = Inr u" "column hits ''v'' = Inr v"
  shows "snd (sector_hits self hits s) =
     (let theta = of_int s * 2 * pi / of_int (n_sectors self);
          ur = map2 (\<lambda>u v. u * cos theta - v * sin theta) u v;
          vr = map2 (\<lambda>u v. u * sin theta + v * cos theta) u v
      in Inr (Pair (select_rows (set_column (set_column hits ''ur'' ur) ''vr'' vr)
                     (map2 (spec_in_extended_sector (sector_ds self) (sector_di self)
                              (arctan theta)) ur vr)) []))"
proof -
  have e: "in_extended_sector (sector_ds self) (sector_di self) sl =
           spec_in_extended_sector (sector_ds self) (sector_di self) sl" for sl
    by (intro ext) (rule in_extended_sector_abs)
  show ?thesis
    using assms by (simp add: sector_hits_def Let_def e)
qed
lemma one_hit_kept: "in_extended_sector (11/10) (1/10000) (arctan pi) 1 (1/2)"
  using arctan_pi_gt by (simp add: in_extended_sector_def)

lemma sector_hits_one_hit:
  "sector_hits two_sector_builder one_hit 1 =
     ([(''u'', [-1]), (''v'', [-1/2]), (''pt'', [1]), (''ur'', [1]), (''vr'', [1/2])],
      Inr (Pair [(''u'', [-1]), (''v'', [-1/2]), (''pt'', [1]), (''ur'', [1]), (''vr'', [1/2])] []))"
  using one_hit_kept
  by (simp add: sector_hits_def two_sector_builder_def one_hit_def column_def set_column_def
      select_rows_def Let_def)

text \<open>
  Claim C1, at two sectors, sector 1 and the default margins: the angle is \<open>pi\<close>, the
  code takes the slope \<open>arctan pi\<close> and returns the hit with \<open>ur = 1\<close>, \<open>vr = 1/2\<close> in
  the extended sector, while with the slope \<open>tan pi = 0\<close> of the claim the hit is outside
  of it.
\<close>

theorem sector_hits_slope_arctan:
  "snd (sector_hits two_sector_builder one_hit 1) =
     Inr (Pair [(''u'', [-1]), (''v'', [-1/2]), (''pt'', [1]), (''ur'', [1]), (''vr'', [1/2])] []) \<and>
   \<not> spec_in_extended_sector (sector_ds two_sector_builder) (sector_di two_sector_builder)
        (spec_slope 1 (n_sectors two_sector_builder)) 1 (1/2)"
  by (simp add: sector_hits_one_hit) (simp add: spec_in_extended_sector_def spec_slope_def two_sector_builder_def)

text \<open>
  Claim C5, at one sector and the augmented table of an event: \<open>sector_hits\<close> returns the
  table unchanged but bare, not as the pair of table and measurements of the case of
  several sectors, and the body of the loop of \<open>process\<close>, which unpacks a pair, raises.
\<close>

theorem one_sector_returns_bare_table:
  "sector_hits (two_sector_builder\<lparr>n_sectors := 1\<rparr>) event_hits 0 =
     (event_hits, Inr (Bare event_hits)) \<and>
   process_sector keep_frame (two_sector_builder\<lparr>n_sectors := 1\<rparr>) False 1000 0
       \<lparr>hits_table = event_hits, outdir_files = [], data_list = [], n_sector_hits = 0\<rparr> =
     Inl (ValueError ''wrong number of values to unpack'')"
  by (simp add: sector_hits_def process_sector_def bind_def two_sector_builder_def event_hits_def)

text \<open>
  Claim C9, as stated, fails: with two sectors the call for sector 1 leaves the table of
  the caller with two more columns, \<open>ur\<close> and \<open>vr\<close>.
\<close>

theorem sector_hits_changes_table:
  "fst (sector_hits two_sector_builder one_hit 1) =
     [(''u'', [-1]), (''v'', [-1/2]), (''pt'', [1]), (''ur'', [1]), (''vr'', [1/2])] \<and>
   fst (sector_hits two_sector_builder one_hit 1) \<noteq> one_hit"
  by (simp add: sector_hits_one_hit) (simp add: one_hit_def)

lemma filter_update_other:
  "\<forall>v. \<not> P (k, v) \<Longrightarrow> filter P (AList.update k v d) = filter P d"
  by (induction d) auto

lemma map_of_update_other: "c \<noteq> k \<Longrightarrow> map_of (AList.update k v d) c = map_of d c"
  by (simp add: update_conv')

lemma sector_hits_table_written:
  assumes "n_sectors self \<noteq> 1" "n_sectors self \<noteq> 0"
    and "column hits ''u'' = Inr u" "column hits ''v'' = Inr v"
  shows "fst (sector_hits self hits s) =
           set_column (set_column hits ''ur'' (rotated_ur s (n_sectors self) u v))
             ''vr'' (rotated_vr s (n_sectors self) u v)"
  using assms
  by (simp add: sector_hits_def Let_def rotated_ur_def rotated_vr_def split: sum.splits)

lemma sector_hits_table_kept:
  assumes "n_sectors self = 1 \<or> n_sectors self = 0 \<or> (\<exists>e. column hits ''u'' = Inl e) \<or>
           (\<exists>e. column hits ''v'' = Inl e)"
  shows "fst (sector_hits self hits s) = hits"
  using assms by (auto simp: sector_hits_def Let_def split: sum.splits)

lemma set_column_lookup:
  "map_of (set_column (set_column hits ''ur'' a) ''vr'' b) ''ur'' = Some a"
  "map_of (set_column (set_column hits ''ur'' a) ''vr'' b) ''vr'' = Some b"
  by (simp_all add: set_column_def update_conv')

text \<open>
  Claim C9, amended. For every hit table, builder and sector index, the sector transform
  leaves every column of the table other than \<open>ur\<close> and \<open>vr\<close> as it was (none added,
  removed, modified or moved). When the number of sectors is neither 1 nor 0 and the
  table has the columns \<open>u\<close> and \<open>v\<close>, it writes the rotated coordinates into the
  columns \<open>ur\<close> and \<open>vr\<close> of the table; with one sector, with no sector, or without
  one of the columns \<open>u\<close> and \<open>v\<close>, the table is unchanged.
\<close>

theorem sector_hits_frame:
  "other_columns (fst (sector_hits self hits s)) = other_columns hits \<and>
   (n_sectors self = 1 \<longrightarrow> fst (sector_hits self hits s) = hits) \<and>
   (\<forall>c. c \<noteq> ''ur'' \<and> c \<noteq> ''vr'' \<longrightarrow> map_of (fst (sector_hits self hits s)) c = map_of hits c) \<and>
   (n_sectors self \<noteq> 1 \<and> n_sectors self \<noteq> 0 \<and>
    column hits ''u'' = Inr u \<and> column hits ''v'' = Inr v \<longrightarrow>
      fst (sector_hits self hits s) =
        set_column (set_column hits ''ur'' (rotated_ur s (n_sectors self) u v))
          ''vr'' (rotated_vr s (n_sectors self) u v) \<and>
      map_of (fst (sector_hits self hits s)) ''ur'' = Some (rotated_ur s (n_sectors self) u v) \<and>
      map_of (fst (sector_hits self hits s)) ''vr'' = Some (rotated_vr s (n_sectors self) u v)) \<and>
   (n_sectors self = 0 \<or> (\<exists>e. column hits ''u'' = Inl e) \<or> (\<exists>e. column hits ''v'' = Inl e) \<longrightarrow>
      fst (sector_hits self hits s) = hits)"
proof -
  have f: "other_columns (set_column (set_column hits ''ur'' a) ''vr'' b) = other_columns hits" for a b
    by (simp add: other_columns_def set_column_def filter_update_other)
  have m: "map_of (set_column (set_column hits ''ur'' a) ''vr'' b) c = map_of hits c"
    if "c \<noteq> ''ur'' \<and> c \<noteq> ''vr''" for a b c
    using that by (simp add: set_column_def map_of_update_other)
  have 1: "other_columns (fst (sector_hits self hits s)) = other_columns hits"
    by (simp add: sector_hits_def Let_def f split: sum.splits)
  have 2: "n_sectors self = 1 \<longrightarrow> fst (sector_hits self hits s) = hits"
    by (simp add: sector_hits_def)
  have 3: "\<forall>c. c \<noteq> ''ur'' \<and> c \<noteq> ''vr'' \<longrightarrow> map_of (fst (sector_hits self hits s)) c = map_of hits c"
    using m by (simp add: sector_hits_def Let_def split: sum.splits)
  have 4: "n_sectors self \<noteq> 1 \<and> n_sectors self \<noteq> 0 \<and>
    column hits ''u'' = Inr u \<and> column hits ''v'' = Inr v \<longrightarrow>
      fst (sector_hits self hits s) =
        set_column (set_column hits ''ur'' (rotated_ur s (n_sectors self) u v))
          ''vr'' (rotated_vr s (n_sectors self) u v) \<and>
      map_of (fst (sector_hits self hits s)) ''ur'' = Some (rotated_ur s (n_sectors self) u v) \<and>
      map_of (fst (sector_hits self hits s)) ''vr'' = Some (rotated_vr s (n_sectors self) u v)"
    using sector_hits_table_written[of self hits u v s] by (simp add: set_column_lookup)
  have 5: "n_sectors self = 0 \<or> (\<exists>e. column hits ''u'' = Inl e) \<or> (\<exists>e. column hits ''v'' = Inl e) \<longrightarrow>
      fst (sector_hits self hits s) = hits"
    using sector_hits_table_kept[of self hits s] by blast
  show ?thesis using 1 2 3 4 5 by blast
qed

lemma rotated_one_hit:
  "rotated_ur 1 2 [-1] [- (1/2)] = [1]" "rotated_vr 1 2 [-1] [- (1/2)] = [1/2]"
  by (simp_all add: rotated_ur_def rotated_vr_def)

theorem sector_hits_frame_witness:
  "other_columns (fst (sector_hits two_sector_builder one_hit 1)) = other_columns one_hit \<and>
   ''pt'' \<noteq> ''ur'' \<and> ''pt'' \<noteq> ''vr'' \<and>
   map_of (fst (sector_hits two_sector_builder one_hit 1)) ''pt'' = Some [1] \<and>
   n_sectors (two_sector_builder\<lparr>n_sectors := 1\<rparr>) = 1 \<and>
   fst (sector_hits (two_sector_builder\<lparr>n_sectors := 1\<rparr>) one_hit 1) = one_hit \<and>
   n_sectors two_sector_builder \<noteq> 1 \<and> n_sectors two_sector_builder \<noteq> 0 \<and>
   column one_hit ''u'' = Inr [-1] \<and> column one_hit ''v'' = Inr [-1/2] \<and>
   map_of (fst (sector_hits two_sector_builder one_hit 1)) ''ur'' = Some [1] \<and>
   map_of (fst (sector_hits two_sector_builder one_hit 1)) ''vr'' = Some [1/2] \<and>
   n_sectors (two_sector_builder\<lparr>n_sectors := 0\<rparr>) = 0 \<and>
   fst (sector_hits (two_sector_builder\<lparr>n_sectors := 0\<rparr>) one_hit 1) = one_hit \<and>
   column [(''pt'', [1])] ''u'' = Inl (KeyError ''u'') \<and>
   fst (sector_hits two_sector_builder [(''pt'', [1])] 1) = [(''pt'', [1])]"
proof -
  have p: "map_of one_hit ''pt'' = Some [1]" by (simp add: one_hit_def)
  have n1: "n_sectors (two_sector_builder\<lparr>n_sectors := 1\<rparr>) = 1" by simp
  have n0: "n_sectors (two_sector_builder\<lparr>n_sectors := 0\<rparr>) = 0" by simp
  have n2: "n_sectors two_sector_builder = 2" by (simp add: two_sector_builder_def)
  have cu: "column one_hit ''u'' = Inr [-1]" and cv: "column one_hit ''v'' = Inr [-1/2]"
    by (simp_all add: column_def one_hit_def)
  have ku: "column [(''pt'', [1])] ''u'' = Inl (KeyError ''u'')" by (simp add: column_def)
  note t = sector_hits_frame[of two_sector_builder one_hit 1 "[-1]" "[-1/2]"]
  have a1: "other_columns (fst (sector_hits two_sector_builder one_hit 1)) = other_columns one_hit"
    using t by blast
  have a2: "map_of (fst (sector_hits two_sector_builder one_hit 1)) ''pt'' = Some [1]"
    using t p by simp
  have a3: "map_of (fst (sector_hits two_sector_builder one_hit 1)) ''ur'' = Some [1] \<and>
     map_of (fst (sector_hits two_sector_builder one_hit 1)) ''vr'' = Some [1/2]"
    using t n2 cu cv by (simp add: set_column_lookup rotated_one_hit)
  note a = a1 a2 a3
  from sector_hits_frame[of "two_sector_builder\<lparr>n_sectors := 1\<rparr>" one_hit 1 "[]" "[]"] n1
  have b: "fst (sector_hits (two_sector_builder\<lparr>n_sectors := 1\<rparr>) one_hit 1) = one_hit"
    by blast
  from sector_hits_frame[of "two_sector_builder\<lparr>n_sectors := 0\<rparr>" one_hit 1 "[]" "[]"] n0
  have c: "fst (sector_hits (two_sector_builder\<lparr>n_sectors := 0\<rparr>) one_hit 1) = one_hit"
    by blast
  from sector_hits_frame[of two_sector_builder "[(''pt'', [1])]" 1 "[]" "[]"] ku
  have d: "fst (sector_hits two_sector_builder [(''pt'', [1])] 1) = [(''pt'', [1])]"
    by blast
  show ?thesis using a b c d n1 n0 n2 cu cv ku by simp
qed
section \<open>Properties of the constructor and of \<open>process\<close>\<close>

lemma digit_values:
  "digit_value CHR ''0'' = 0" "digit_value CHR ''1'' = 1" "digit_value CHR ''2'' = 2"
  "digit_value CHR ''3'' = 3" "digit_value CHR ''4'' = 4" "digit_value CHR ''5'' = 5"
  "digit_value CHR ''6'' = 6" "digit_value CHR ''7'' = 7" "digit_value CHR ''8'' = 8"
  "digit_value CHR ''9'' = 9"
  by (simp_all add: digit_value_def)

lemma name51: "artifact_name 5 1 = ''data5_s1.pt''"
  by (simp add: artifact_name_def str_int_def str_nat.simps)

lemma name50: "artifact_name 5 0 = ''data5_s0.pt''"
  by (simp add: artifact_name_def str_int_def str_nat.simps)

lemma py_int5: "py_int ''000000005'' = Inr 5"
proof -
  have s: "strip ''000000005'' = ''000000005''"
    by (simp add: strip_def is_space_def)
  have d: "digits_value ''000000005'' 0 = Some 5"
    by (simp add: is_digit_def digit_values)
  have u: "unsigned_int ''000000005'' = Some 5"
    by (simp add: unsigned_int_def d is_digit_def del: digits_value.simps)
  show ?thesis by (simp add: py_int_def s u)
qed

lemma init5:
  "builder_init ''in'' [''data5_s1.pt''] [''event000000005-hits.csv.gz''] =
     Inr ([''in/event000000005''], [(5, False)])"
proof -
  have s: "suffix hits_suffix ''event000000005-hits.csv.gz''"
    by (simp add: hits_suffix_def suffix_def)
  have r: "remove_all hits_suffix ''event000000005-hits.csv.gz'' = ''event000000005''"
    by (simp add: hits_suffix_def)
  have l: "last9 ''event000000005'' = ''000000005''"
    by (simp add: last9_def)
  have p: "path_join ''in'' ''event000000005'' = ''in/event000000005''"
    by (simp add: path_join_def)
  show ?thesis
    by (simp add: builder_init_def s r l py_int5 p name50 del: remove_all.simps)
qed
lemma init_loop_exists:
  assumes "init_loop indir outfiles infiles (ps0, ex0) = Inr (ps, ex)"
    and "\<forall>evtid b. map_of ex0 evtid = Some b \<longrightarrow> (b \<longleftrightarrow> artifact_name evtid 0 \<in> set outfiles)"
  shows "\<forall>evtid b. map_of ex evtid = Some b \<longrightarrow> (b \<longleftrightarrow> artifact_name evtid 0 \<in> set outfiles)"
  using assms
proof (induction infiles arbitrary: ps0 ex0)
  case Nil
  then show ?case by simp
next
  case (Cons p infiles)
  show ?case
  proof (cases "suffix hits_suffix p")
    case False
    then show ?thesis using Cons.IH[of ps0 ex0] Cons.prems by simp
  next
    case True
    from Cons.prems(1) True obtain evtid where
      e: "py_int (last9 (remove_all hits_suffix p)) = Inr evtid"
      and r: "init_loop indir outfiles infiles
                (ps0 @ [path_join indir (remove_all hits_suffix p)],
                 AList.update evtid (artifact_name evtid 0 \<in> set outfiles) ex0) = Inr (ps, ex)"
      by (auto simp: Let_def split: sum.splits)
    have inv: "\<forall>e' b. map_of (AList.update evtid (artifact_name evtid 0 \<in> set outfiles) ex0) e' = Some b
                 \<longrightarrow> (b \<longleftrightarrow> artifact_name e' 0 \<in> set outfiles)"
      using Cons.prems(2) by (auto simp: update_conv')
    from Cons.IH[OF r inv] show ?thesis .
  qed
qed

lemma sector_hits_no_redo:
  "sector_hits no_redo_builder one_hit 1 =
     ([(''u'', [-1]), (''v'', [-1/2]), (''pt'', [1]), (''ur'', [1]), (''vr'', [1/2])],
      Inr (Pair [(''u'', [-1]), (''v'', [-1/2]), (''pt'', [1]), (''ur'', [1]), (''vr'', [1/2])] []))"
  using one_hit_kept
  by (simp add: sector_hits_def no_redo_builder_def two_sector_builder_def one_hit_def column_def
      set_column_def select_rows_def Let_def)

lemma process_sector_recompute:
  "process_sector keep_frame no_redo_builder False 5 1 stored_only_s1 =
     Inr \<lparr>hits_table = [(''u'', [-1]), (''v'', [-1/2]), (''pt'', [1]), (''ur'', [1]), (''vr'', [1/2])],
          outdir_files = [(''data5_s1.pt'',
             [(''u'', [-1]), (''v'', [-1/2]), (''pt'', [1]), (''ur'', [1]), (''vr'', [1/2])])],
          data_list = [[(''u'', [-1]), (''v'', [-1/2]), (''pt'', [1]), (''ur'', [1]), (''vr'', [1/2])]],
          n_sector_hits = 1\<rparr>"
proof -
  have h: "hits_table stored_only_s1 = one_hit" by (simp add: stored_only_s1_def)
  have r: "\<not> redo no_redo_builder" by (simp add: no_redo_builder_def)
  show ?thesis
    by (simp add: process_sector_def name51 h sector_hits_no_redo bind_def keep_frame_def n_rows_def)
       (simp add: stored_only_s1_def)
qed

text \<open>
  Claim C6, as stated, fails: the output directory holds the artifact of sector 1 of event
  5 and not that of sector 0; the constructor sets the flag of the event to false, and
  with \<open>redo=False\<close> sector 1 is computed and written over its file, not loaded.
\<close>

theorem cache_flag_ignores_own_artifact:
  "builder_init ''in'' [''data5_s1.pt''] [''event000000005-hits.csv.gz''] =
     Inr ([''in/event000000005''], [(5, False)]) \<and>
   map_of (outdir_files stored_only_s1) (artifact_name 5 1) = Some [] \<and>
   \<not> redo no_redo_builder \<and>
   process_sector keep_frame no_redo_builder False 5 1 stored_only_s1 =
     Inr \<lparr>hits_table = [(''u'', [-1]), (''v'', [-1/2]), (''pt'', [1]), (''ur'', [1]), (''vr'', [1/2])],
          outdir_files = [(''data5_s1.pt'',
             [(''u'', [-1]), (''v'', [-1/2]), (''pt'', [1]), (''ur'', [1]), (''vr'', [1/2])])],
          data_list = [[(''u'', [-1]), (''v'', [-1/2]), (''pt'', [1]), (''ur'', [1]), (''vr'', [1/2])]],
          n_sector_hits = 1\<rparr>"
  by (simp add: init5 process_sector_recompute name51)
     (simp add: stored_only_s1_def no_redo_builder_def)

text \<open>
  Claim C6, amended. The flag that the constructor stores for an event id is true if and
  only if the artifact of sector 0 of the event, \<open>data{evtid}_s0.pt\<close>, is in the listing
  of the output directory: the event is the unit of the decision. With the flag set and
  \<open>redo=False\<close>, a sector is loaded from its own file \<open>data{evtid}_s{sector}.pt\<close>, which
  raises when the file is missing; otherwise, when the body of the loop returns, the
  sector was computed, packed, stored under its file name and appended to the data list.
\<close>

theorem cache_decision_per_event:
  "(builder_init indir outfiles infiles = Inr (ps, ex) \<longrightarrow>
      (\<forall>evtid b. map_of ex evtid = Some b \<longrightarrow> (b \<longleftrightarrow> artifact_name evtid 0 \<in> set outfiles))) \<and>
   (exists_evt \<and> \<not> redo self \<longrightarrow>
      process_sector to_pyg_data self exists_evt evtid s st =
        (case map_of (outdir_files st) (artifact_name evtid s) of
           None \<Rightarrow> Inl (FileNotFoundError (artifact_name evtid s))
         | Some data \<Rightarrow> Inr (st\<lparr>data_list := data_list st @ [data]\<rparr>))) \<and>
   (\<not> (exists_evt \<and> \<not> redo self) \<longrightarrow>
      (\<forall>st'. process_sector to_pyg_data self exists_evt evtid s st = Inr st' \<longrightarrow>
         (\<exists>sector ms data.
            snd (sector_hits self (hits_table st) s) = Inr (Pair sector ms) \<and>
            to_pyg_data sector = Inr data \<and>
            map_of (outdir_files st') (artifact_name evtid s) = Some data \<and>
            data_list st' = data_list st @ [data])))"
proof (intro conjI impI allI)
  assume "builder_init indir outfiles infiles = Inr (ps, ex)"
  then have "init_loop indir outfiles infiles ([], []) = Inr (ps, ex)"
    by (simp add: builder_init_def)
  from init_loop_exists[OF this]
  show "\<And>evtid b. map_of ex evtid = Some b \<Longrightarrow> b = (artifact_name evtid 0 \<in> set outfiles)"
    by simp
next
  assume "exists_evt \<and> \<not> redo self"
  then show "process_sector to_pyg_data self exists_evt evtid s st =
        (case map_of (outdir_files st) (artifact_name evtid s) of
           None \<Rightarrow> Inl (FileNotFoundError (artifact_name evtid s))
         | Some data \<Rightarrow> Inr (st\<lparr>data_list := data_list st @ [data]\<rparr>))"
    by (simp add: process_sector_def Let_def)
next
  fix st'
  assume n: "\<not> (exists_evt \<and> \<not> redo self)"
    and p: "process_sector to_pyg_data self exists_evt evtid s st = Inr st'"
  obtain hits r where sh: "sector_hits self (hits_table st) s = (hits, r)"
    by (cases "sector_hits self (hits_table st) s")
  from p n sh obtain ret where r: "r = Inr ret"
    by (cases r) (auto simp: process_sector_def Let_def)
  from p n sh r obtain sector ms where u: "unpack_sector ret = Inr (sector, ms)"
    by (cases "unpack_sector ret") (auto simp: process_sector_def Let_def bind_def)
  then have ret: "ret = Pair sector ms"
    by (cases ret) (auto split: if_splits)
  from p n sh r u obtain data where d: "to_pyg_data sector = Inr data"
    by (cases "to_pyg_data sector") (auto simp: process_sector_def Let_def bind_def)
  from p n sh r u d have st': "st' = st\<lparr>hits_table := hits,
                        outdir_files := AList.update (artifact_name evtid s) data (outdir_files st),
                        data_list := data_list st @ [data],
                        n_sector_hits := n_sector_hits st + n_rows sector\<rparr>"
    by (auto simp: process_sector_def Let_def bind_def)
  show "\<exists>sector ms data.
            snd (sector_hits self (hits_table st) s) = Inr (Pair sector ms) \<and>
            to_pyg_data sector = Inr data \<and>
            map_of (outdir_files st') (artifact_name evtid s) = Some data \<and>
            data_list st' = data_list st @ [data]"
    using sh r ret d st' by (auto simp: update_conv')
qed

theorem cache_decision_per_event_witness:
  "builder_init ''in'' [''data5_s1.pt''] [''event000000005-hits.csv.gz''] =
     Inr ([''in/event000000005''], [(5, False)]) \<and>
   map_of [(5 :: int, False)] 5 = Some False \<and>
   artifact_name 5 0 \<notin> set [''data5_s1.pt''] \<and>
   \<not> redo no_redo_builder \<and>
   process_sector keep_frame no_redo_builder True 5 1 stored_only_s1 =
     Inr (stored_only_s1\<lparr>data_list := data_list stored_only_s1 @ [[]]\<rparr>) \<and>
   process_sector keep_frame no_redo_builder True 5 0 stored_only_s1 =
     Inl (FileNotFoundError ''data5_s0.pt'') \<and>
   (\<exists>sector ms data.
      snd (sector_hits no_redo_builder (hits_table stored_only_s1) 1) = Inr (Pair sector ms) \<and>
      keep_frame sector = Inr data \<and>
      map_of [(''data5_s1.pt'',
             [(''u'', [-1]), (''v'', [-1/2]), (''pt'', [1]), (''ur'', [1]), (''vr'', [1/2])])]
         (artifact_name 5 1) = Some data)"
proof -
  note t = cache_decision_per_event[where indir = "''in''" and outfiles = "[''data5_s1.pt'']"
        and infiles = "[''event000000005-hits.csv.gz'']" and ps = "[''in/event000000005'']"
        and ex = "[(5, False)]" and self = no_redo_builder
        and to_pyg_data = keep_frame and evtid = 5 and st = stored_only_s1]
  have i: "builder_init ''in'' [''data5_s1.pt''] [''event000000005-hits.csv.gz''] =
     Inr ([''in/event000000005''], [(5, False)])" by (rule init5)
  have m: "map_of [(5 :: int, False)] 5 = Some False" by simp
  have r: "\<not> redo no_redo_builder" by (simp add: no_redo_builder_def)
  have f1: "map_of (outdir_files stored_only_s1) ''data5_s1.pt'' = Some []"
    and f0: "map_of (outdir_files stored_only_s1) ''data5_s0.pt'' = None"
    by (simp_all add: stored_only_s1_def)
  have a: "artifact_name 5 0 \<notin> set [''data5_s1.pt'']"
    using t[where exists_evt = True and s = 1] i m by blast
  have l1: "process_sector keep_frame no_redo_builder True 5 1 stored_only_s1 =
     Inr (stored_only_s1\<lparr>data_list := data_list stored_only_s1 @ [[]]\<rparr>)"
    using t[where exists_evt = True and s = 1] r by (simp add: name51 f1)
  have l0: "process_sector keep_frame no_redo_builder True 5 0 stored_only_s1 =
     Inl (FileNotFoundError ''data5_s0.pt'')"
    using t[where exists_evt = True and s = 0] r by (simp add: name50 f0)
  have c: "\<exists>sector ms data.
      snd (sector_hits no_redo_builder (hits_table stored_only_s1) 1) = Inr (Pair sector ms) \<and>
      keep_frame sector = Inr data \<and>
      map_of [(''data5_s1.pt'',
             [(''u'', [-1]), (''v'', [-1/2]), (''pt'', [1]), (''ur'', [1]), (''vr'', [1/2])])]
         (artifact_name 5 1) = Some data"
    using t[where exists_evt = False and s = 1] process_sector_recompute
    by (simp add: name51) blast
  show ?thesis using i m a r l1 l0 c by blast
qed

end
